theory Spec2Isabelle
  imports Main "HOL-Library.Word" "HOL-Library.Signed_Division"
begin

section \<open>Statuses and dynamically typed values\<close>

text \<open>
  The four status constants of package \<open>b3\<close> that the nodes return.
\<close>

datatype Status = SUCCESS | FAILURE | RUNNING | ERROR

text \<open>
  A blackboard value is a Go \<open>interface{}\<close>: either the nil interface or a value tagged with
  its dynamic type. The tags are the types the typed accessors of \<open>Blackboard.go\<close> assert,
  plus strings and a catch-all for every other dynamic type (named by its type). Go's
  \<open>int\<close> is taken at 64 bits; a \<open>float64\<close> is carried as its 64-bit pattern, since no
  accessor computes with it.
\<close>

type_synonym int64 = "64 word"
type_synonym uint64 = "64 word"
type_synonym int32 = "32 word"
type_synonym goint = "64 word"
type_synonym float64 = "64 word"

datatype Value =
    VNil
  | VBool bool
  | VInt goint
  | VInt32 int32
  | VInt64 int64
  | VUInt64 uint64
  | VFloat64 float64
  | VString string
  | VOther string string

text \<open>
  A failed type assertion \<open>v.(T)\<close> and an explicit \<open>panic(...)\<close> both abort the process.
\<close>

datatype Panic = TypeAssertionPanic | ExplicitPanic

section \<open>Memory, TreeData, TreeMemory\<close>

text \<open>
  \<open>Memory\<close> wraps a Go map from string to \<open>interface{}\<close>. A key can be present with the nil
  interface as its value; reading an absent key gives nil too.
\<close>

type_synonym Memory = "string \<rightharpoonup> Value"

definition NewMemory :: Memory where
  "NewMemory = Map.empty"

text \<open>
  \<open>OpenNodes\<close> holds node references in the source; the node identities stand for them.
\<close>

record TreeData =
  NodeMemory :: Memory
  OpenNodes :: "string list"
  TraversalDepth :: int
  TraversalCycle :: int

definition NewTreeData :: TreeData where
  "NewTreeData =
     \<lparr>NodeMemory = NewMemory, OpenNodes = [], TraversalDepth = 0, TraversalCycle = 0\<rparr>"

text \<open>
  \<open>TreeMemory\<close> embeds a \<open>*Memory\<close> (field \<open>tmMemory\<close> here) beside \<open>_treeData\<close> and
  \<open>_nodeMemory\<close>. Isabelle identifiers cannot start with an underscore, so the leading
  underscore of the Go field and method names is dropped throughout.
\<close>

record TreeMemory =
  tmMemory :: Memory
  treeData :: TreeData
  nodeMemory :: "string \<rightharpoonup> Memory"

definition NewTreeMemory :: TreeMemory where
  "NewTreeMemory = \<lparr>tmMemory = NewMemory, treeData = NewTreeData, nodeMemory = Map.empty\<rparr>"

section \<open>The Storage collaborator\<close>

text \<open>
  \<open>Storage\<close> is an interface whose implementations live outside the repository. What the
  blackboard does to it is the sequence of calls it makes; what it gives the blackboard is
  the sequence of entries its \<open>Foreach\<close> passes to the visitor. The model is a recording
  storage with exactly these two components.
\<close>

datatype StorageCall =
    CallSet string Value string string
  | CallRemove string string string

record Storage =
  foreachEntries :: "(string \<times> Value \<times> string \<times> string) list"
  calls :: "StorageCall list"

definition Storage_Set :: "Storage \<Rightarrow> string \<Rightarrow> Value \<Rightarrow> string \<Rightarrow> string \<Rightarrow> Storage" where
  "Storage_Set st key val treeScope nodeScope =
     st\<lparr>calls := calls st @ [CallSet key val treeScope nodeScope]\<rparr>"

definition Storage_Remove :: "Storage \<Rightarrow> string \<Rightarrow> string \<Rightarrow> string \<Rightarrow> Storage" where
  "Storage_Remove st key treeScope nodeScope =
     st\<lparr>calls := calls st @ [CallRemove key treeScope nodeScope]\<rparr>"

section \<open>Blackboard\<close>

text \<open>
  \<open>storage = None\<close> is the nil interface. The memories are heap objects reached through
  pointers in the source; here they are components of the blackboard, and a \<open>*Memory\<close> is
  the path to one of them.
\<close>

record Blackboard =
  storage :: "Storage option"
  baseMemory :: Memory
  treeMemory :: "string \<rightharpoonup> TreeMemory"

datatype MemRef = BaseRef | TreeRef string | NodeRef string string

fun deref :: "Blackboard \<Rightarrow> MemRef \<Rightarrow> Memory" where
  "deref bb BaseRef = baseMemory bb"
| "deref bb (TreeRef t) =
     (case treeMemory bb t of Some tm \<Rightarrow> tmMemory tm | None \<Rightarrow> Map.empty)"
| "deref bb (NodeRef t n) =
     (case treeMemory bb t of
        Some tm \<Rightarrow> (case nodeMemory tm n of Some m \<Rightarrow> m | None \<Rightarrow> Map.empty)
      | None \<Rightarrow> Map.empty)"

fun store :: "MemRef \<Rightarrow> Memory \<Rightarrow> Blackboard \<Rightarrow> Blackboard" where
  "store BaseRef m bb = bb\<lparr>baseMemory := m\<rparr>"
| "store (TreeRef t) m bb =
     (case treeMemory bb t of
        Some tm \<Rightarrow> bb\<lparr>treeMemory := (treeMemory bb)(t \<mapsto> tm\<lparr>tmMemory := m\<rparr>)\<rparr>
      | None \<Rightarrow> bb)"
| "store (NodeRef t n) m bb =
     (case treeMemory bb t of
        Some tm \<Rightarrow>
          bb\<lparr>treeMemory := (treeMemory bb)(t \<mapsto> tm\<lparr>nodeMemory := (nodeMemory tm)(n \<mapsto> m)\<rparr>)\<rparr>
      | None \<Rightarrow> bb)"

text \<open>The three methods of \<open>Memory\<close>, acting through the pointer.\<close>

definition Memory_Get :: "MemRef \<Rightarrow> string \<Rightarrow> Blackboard \<Rightarrow> Value" where
  "Memory_Get this key bb = (case deref bb this key of Some v \<Rightarrow> v | None \<Rightarrow> VNil)"

definition Memory_Set :: "MemRef \<Rightarrow> string \<Rightarrow> Value \<Rightarrow> Blackboard \<Rightarrow> Blackboard" where
  "Memory_Set this key val bb = store this ((deref bb this)(key \<mapsto> val)) bb"

definition Memory_Remove :: "MemRef \<Rightarrow> string \<Rightarrow> Blackboard \<Rightarrow> Blackboard" where
  "Memory_Remove this key bb = store this ((deref bb this)(key := None)) bb"

text \<open>
  \<open>_getTreeMemory\<close> creates the tree memory when the map has none for the scope; the
  pointer it returns is the entry of \<open>treeScope\<close>, so the model returns the blackboard only.
\<close>

definition getTreeMemory :: "string \<Rightarrow> Blackboard \<Rightarrow> Blackboard" where
  "getTreeMemory treeScope bb =
     (case treeMemory bb treeScope of
        None \<Rightarrow> bb\<lparr>treeMemory := (treeMemory bb)(treeScope \<mapsto> NewTreeMemory)\<rparr>
      | Some _ \<Rightarrow> bb)"

text \<open>
  \<open>_getNodeMemory\<close> is given the tree memory that \<open>_getTreeMemory\<close> returned (here: its
  scope) and creates the node memory when that tree has none for the node scope.
\<close>

definition getNodeMemory :: "string \<Rightarrow> string \<Rightarrow> Blackboard \<Rightarrow> Blackboard" where
  "getNodeMemory treeScope nodeScope bb =
     (case treeMemory bb treeScope of
        None \<Rightarrow> bb
      | Some tm \<Rightarrow>
          (case nodeMemory tm nodeScope of
             None \<Rightarrow>
               bb\<lparr>treeMemory :=
                    (treeMemory bb)(treeScope \<mapsto>
                       tm\<lparr>nodeMemory := (nodeMemory tm)(nodeScope \<mapsto> NewMemory)\<rparr>)\<rparr>
           | Some _ \<Rightarrow> bb))"

definition getMemory :: "string \<Rightarrow> string \<Rightarrow> Blackboard \<Rightarrow> MemRef \<times> Blackboard" where
  "getMemory treeScope nodeScope bb =
     (if length treeScope > 0 then
        (let bb1 = getTreeMemory treeScope bb in
         if length nodeScope > 0
         then (NodeRef treeScope nodeScope, getNodeMemory treeScope nodeScope bb1)
         else (TreeRef treeScope, bb1))
      else (BaseRef, bb))"

definition notifySet :: "string \<Rightarrow> Value \<Rightarrow> string \<Rightarrow> string \<Rightarrow> Blackboard \<Rightarrow> Blackboard" where
  "notifySet key val treeScope nodeScope bb =
     (case storage bb of
        None \<Rightarrow> bb
      | Some st \<Rightarrow> bb\<lparr>storage := Some (Storage_Set st key val treeScope nodeScope)\<rparr>)"

definition Blackboard_Set ::
  "string \<Rightarrow> Value \<Rightarrow> string \<Rightarrow> string \<Rightarrow> Blackboard \<Rightarrow> Blackboard" where
  "Blackboard_Set key val treeScope nodeScope bb =
     (case getMemory treeScope nodeScope bb of
        (memory, bb1) \<Rightarrow> notifySet key val treeScope nodeScope (Memory_Set memory key val bb1))"

definition Blackboard_SetMem :: "string \<Rightarrow> Value \<Rightarrow> Blackboard \<Rightarrow> Blackboard" where
  "Blackboard_SetMem key val bb =
     (case getMemory [] [] bb of
        (memory, bb1) \<Rightarrow> notifySet key val [] [] (Memory_Set memory key val bb1))"

definition Blackboard_Remove :: "string \<Rightarrow> Blackboard \<Rightarrow> Blackboard" where
  "Blackboard_Remove key bb =
     (case getMemory [] [] bb of
        (memory, bb1) \<Rightarrow>
          (let bb2 = Memory_Remove memory key bb1 in
           case storage bb2 of
             None \<Rightarrow> bb2
           | Some st \<Rightarrow> bb2\<lparr>storage := Some (Storage_Remove st key [] [])\<rparr>))"

definition Blackboard_SetTree :: "string \<Rightarrow> Value \<Rightarrow> string \<Rightarrow> Blackboard \<Rightarrow> Blackboard" where
  "Blackboard_SetTree key val treeScope bb =
     (case getMemory treeScope [] bb of
        (memory, bb1) \<Rightarrow> notifySet key val treeScope [] (Memory_Set memory key val bb1))"

definition getTreeData :: "string \<Rightarrow> Blackboard \<Rightarrow> TreeData \<times> Blackboard" where
  "getTreeData treeScope bb =
     (let bb1 = getTreeMemory treeScope bb in
      (case treeMemory bb1 treeScope of
         Some tm \<Rightarrow> (treeData tm, bb1)
       | None \<Rightarrow> (NewTreeData, bb1)))"

text \<open>
  Reading goes through \<open>_getMemory\<close> as well, so \<open>Get\<close> may create the memories of its
  scope: it returns the value and the blackboard.
\<close>

definition Blackboard_Get :: "string \<Rightarrow> string \<Rightarrow> string \<Rightarrow> Blackboard \<Rightarrow> Value \<times> Blackboard" where
  "Blackboard_Get key treeScope nodeScope bb =
     (case getMemory treeScope nodeScope bb of
        (memory, bb1) \<Rightarrow> (Memory_Get memory key bb1, bb1))"

definition Blackboard_GetMem :: "string \<Rightarrow> Blackboard \<Rightarrow> Value \<times> Blackboard" where
  "Blackboard_GetMem key bb =
     (case getMemory [] [] bb of
        (memory, bb1) \<Rightarrow> (Memory_Get memory key bb1, bb1))"

subsection \<open>Typed accessors\<close>

definition Blackboard_GetFloat64 ::
  "string \<Rightarrow> string \<Rightarrow> string \<Rightarrow> Blackboard \<Rightarrow> Panic + (float64 \<times> Blackboard)" where
  "Blackboard_GetFloat64 key treeScope nodeScope bb =
     (case Blackboard_Get key treeScope nodeScope bb of
        (v, bb1) \<Rightarrow>
          if v = VNil then Inr (0, bb1)
          else (case v of VFloat64 x \<Rightarrow> Inr (x, bb1) | _ \<Rightarrow> Inl TypeAssertionPanic))"

definition Blackboard_GetBool ::
  "string \<Rightarrow> string \<Rightarrow> string \<Rightarrow> Blackboard \<Rightarrow> Panic + (bool \<times> Blackboard)" where
  "Blackboard_GetBool key treeScope nodeScope bb =
     (case Blackboard_Get key treeScope nodeScope bb of
        (v, bb1) \<Rightarrow>
          if v = VNil then Inr (False, bb1)
          else (case v of VBool x \<Rightarrow> Inr (x, bb1) | _ \<Rightarrow> Inl TypeAssertionPanic))"

definition Blackboard_GetInt ::
  "string \<Rightarrow> string \<Rightarrow> string \<Rightarrow> Blackboard \<Rightarrow> Panic + (goint \<times> Blackboard)" where
  "Blackboard_GetInt key treeScope nodeScope bb =
     (case Blackboard_Get key treeScope nodeScope bb of
        (v, bb1) \<Rightarrow>
          if v = VNil then Inr (0, bb1)
          else (case v of VInt x \<Rightarrow> Inr (x, bb1) | _ \<Rightarrow> Inl TypeAssertionPanic))"

definition Blackboard_GetInt64 ::
  "string \<Rightarrow> string \<Rightarrow> string \<Rightarrow> Blackboard \<Rightarrow> Panic + (int64 \<times> Blackboard)" where
  "Blackboard_GetInt64 key treeScope nodeScope bb =
     (case Blackboard_Get key treeScope nodeScope bb of
        (v, bb1) \<Rightarrow>
          if v = VNil then Inr (0, bb1)
          else (case v of VInt64 x \<Rightarrow> Inr (x, bb1) | _ \<Rightarrow> Inl TypeAssertionPanic))"

definition Blackboard_GetUInt64 ::
  "string \<Rightarrow> string \<Rightarrow> string \<Rightarrow> Blackboard \<Rightarrow> Panic + (uint64 \<times> Blackboard)" where
  "Blackboard_GetUInt64 key treeScope nodeScope bb =
     (case Blackboard_Get key treeScope nodeScope bb of
        (v, bb1) \<Rightarrow>
          if v = VNil then Inr (0, bb1)
          else (case v of VUInt64 x \<Rightarrow> Inr (x, bb1) | _ \<Rightarrow> Inl TypeAssertionPanic))"

definition Blackboard_GetInt32 ::
  "string \<Rightarrow> string \<Rightarrow> string \<Rightarrow> Blackboard \<Rightarrow> Panic + (int32 \<times> Blackboard)" where
  "Blackboard_GetInt32 key treeScope nodeScope bb =
     (case Blackboard_Get key treeScope nodeScope bb of
        (v, bb1) \<Rightarrow>
          if v = VNil then Inr (0, bb1)
          else (case v of VInt32 x \<Rightarrow> Inr (x, bb1) | _ \<Rightarrow> Inl TypeAssertionPanic))"

text \<open>
  The conversions \<open>int64(tvalue)\<close> and \<open>uint64(tvalue)\<close> between the two 64-bit types keep
  the bit pattern, so the word is returned as it is.
\<close>

definition ReadNumberToInt64 :: "Value \<Rightarrow> Panic + int64" where
  "ReadNumberToInt64 v = (case v of VUInt64 tvalue \<Rightarrow> Inr tvalue | _ \<Rightarrow> Inl ExplicitPanic)"

definition ReadNumberToUInt64 :: "Value \<Rightarrow> Panic + uint64" where
  "ReadNumberToUInt64 v = (case v of VInt64 tvalue \<Rightarrow> Inr tvalue | _ \<Rightarrow> Inl ExplicitPanic)"

definition Blackboard_GetInt64Safe ::
  "string \<Rightarrow> string \<Rightarrow> string \<Rightarrow> Blackboard \<Rightarrow> Panic + (int64 \<times> Blackboard)" where
  "Blackboard_GetInt64Safe key treeScope nodeScope bb =
     (case Blackboard_Get key treeScope nodeScope bb of
        (v, bb1) \<Rightarrow>
          if v = VNil then Inr (0, bb1)
          else (case ReadNumberToInt64 v of Inl e \<Rightarrow> Inl e | Inr x \<Rightarrow> Inr (x, bb1)))"

definition Blackboard_GetUInt64Safe ::
  "string \<Rightarrow> string \<Rightarrow> string \<Rightarrow> Blackboard \<Rightarrow> Panic + (uint64 \<times> Blackboard)" where
  "Blackboard_GetUInt64Safe key treeScope nodeScope bb =
     (case Blackboard_Get key treeScope nodeScope bb of
        (v, bb1) \<Rightarrow>
          if v = VNil then Inr (0, bb1)
          else (case ReadNumberToUInt64 v of Inl e \<Rightarrow> Inl e | Inr x \<Rightarrow> Inr (x, bb1)))"

subsection \<open>Construction and replay\<close>

text \<open>
  The visitor that \<open>Initialize\<close> hands to \<open>Foreach\<close>, for one entry.
\<close>

definition replayEntry :: "Blackboard \<Rightarrow> string \<times> Value \<times> string \<times> string \<Rightarrow> Blackboard" where
  "replayEntry bb e =
     (case e of (key, val, treeScope, nodeScope) \<Rightarrow>
        if treeScope \<noteq> [] \<and> nodeScope \<noteq> [] then Blackboard_Set key val treeScope nodeScope bb
        else if treeScope \<noteq> [] then Blackboard_SetTree key val treeScope bb
        else Blackboard_SetMem key val bb)"

definition Blackboard_Initialize :: "Blackboard \<Rightarrow> Blackboard" where
  "Blackboard_Initialize bb =
     (let bb0 = bb\<lparr>baseMemory := NewMemory, treeMemory := Map.empty\<rparr> in
      case storage bb0 of
        None \<Rightarrow> bb0
      | Some st \<Rightarrow> foldl replayEntry bb0 (foreachEntries st))"

definition NewBlackboard :: "Storage option \<Rightarrow> Blackboard" where
  "NewBlackboard st =
     Blackboard_Initialize \<lparr>storage = st, baseMemory = Map.empty, treeMemory = Map.empty\<rparr>"

text \<open>
  The cell a scope pair designates, as \<open>_getMemory\<close> selects it: the global memory when
  the tree scope is empty (whatever the node scope), the tree memory when only the node
  scope is empty, the node memory otherwise.
\<close>

definition scopeRef :: "string \<Rightarrow> string \<Rightarrow> MemRef" where
  "scopeRef treeScope nodeScope =
     (if treeScope = [] then BaseRef
      else if nodeScope = [] then TreeRef treeScope
      else NodeRef treeScope nodeScope)"

text \<open>
  The calls a client can make on an existing blackboard: every exported method of
  \<open>Blackboard\<close>, \<open>Initialize\<close> included. A panic is \<open>Inl\<close>; otherwise the blackboard
  after the call is returned.
\<close>

datatype BlackboardCall =
    CSet string Value string string
  | CSetMem string Value
  | CSetTree string Value string
  | CRemove string
  | CGet string string string
  | CGetMem string
  | CGetFloat64 string string string
  | CGetBool string string string
  | CGetInt string string string
  | CGetInt64 string string string
  | CGetUInt64 string string string
  | CGetInt64Safe string string string
  | CGetUInt64Safe string string string
  | CGetInt32 string string string
  | CInitialize

fun perform :: "BlackboardCall \<Rightarrow> Blackboard \<Rightarrow> Panic + Blackboard" where
  "perform (CSet k v t n) bb = Inr (Blackboard_Set k v t n bb)"
| "perform (CSetMem k v) bb = Inr (Blackboard_SetMem k v bb)"
| "perform (CSetTree k v t) bb = Inr (Blackboard_SetTree k v t bb)"
| "perform (CRemove k) bb = Inr (Blackboard_Remove k bb)"
| "perform (CGet k t n) bb = Inr (snd (Blackboard_Get k t n bb))"
| "perform (CGetMem k) bb = Inr (snd (Blackboard_GetMem k bb))"
| "perform (CGetFloat64 k t n) bb = map_sum id snd (Blackboard_GetFloat64 k t n bb)"
| "perform (CGetBool k t n) bb = map_sum id snd (Blackboard_GetBool k t n bb)"
| "perform (CGetInt k t n) bb = map_sum id snd (Blackboard_GetInt k t n bb)"
| "perform (CGetInt64 k t n) bb = map_sum id snd (Blackboard_GetInt64 k t n bb)"
| "perform (CGetUInt64 k t n) bb = map_sum id snd (Blackboard_GetUInt64 k t n bb)"
| "perform (CGetInt64Safe k t n) bb = map_sum id snd (Blackboard_GetInt64Safe k t n bb)"
| "perform (CGetUInt64Safe k t n) bb = map_sum id snd (Blackboard_GetUInt64Safe k t n bb)"
| "perform (CGetInt32 k t n) bb = map_sum id snd (Blackboard_GetInt32 k t n bb)"
| "perform CInitialize bb = Inr (Blackboard_Initialize bb)"

section \<open>The Wait action\<close>

text \<open>
  Modelled from the spec: the configuration record \<open>BTNodeCfg\<close> and its accessor
  \<open>GetPropertyAsInt64\<close> are not among the sources. The spec gives a node configuration an
  identity and a property mapping from strings to strings, numbers and booleans, queried by
  typed accessors that fall back to the zero value when the property is absent or of
  another type.
\<close>

datatype PropValue = PString string | PNumber int64 | PBool bool

record BTNodeCfg =
  cfgId :: string
  cfgProperties :: "string \<rightharpoonup> PropValue"

definition GetPropertyAsInt64 :: "BTNodeCfg \<Rightarrow> string \<Rightarrow> int64" where
  "GetPropertyAsInt64 setting name =
     (case cfgProperties setting name of Some (PNumber x) \<Rightarrow> x | _ \<Rightarrow> 0)"

text \<open>
  Modelled from the spec: \<open>Tick\<close> and the node base are not among the sources either. A
  tick carries the blackboard and the tree, of which \<open>Wait\<close> uses the identity only
  (\<open>tick.GetTree().GetID()\<close>); \<open>Action.Initialize\<close> fixes the node identity from the
  configuration (\<open>this.GetID()\<close>).
\<close>

record Tick =
  tickBlackboard :: Blackboard
  tickTreeID :: string

record Wait =
  waitID :: string
  endTime :: int64

definition Wait_Initialize :: "Wait \<Rightarrow> BTNodeCfg \<Rightarrow> Wait" where
  "Wait_Initialize this setting =
     this\<lparr>waitID := cfgId setting, endTime := GetPropertyAsInt64 setting ''milliseconds''\<rparr>"

text \<open>
  Go's \<open>/\<close> on \<open>int64\<close> truncates towards zero. The clock reading
  \<open>time.Now().UnixNano()\<close> is an argument of the two hooks.
\<close>

definition int64_div :: "int64 \<Rightarrow> int64 \<Rightarrow> int64" where
  "int64_div a b = word_of_int (sint a sdiv sint b)"

definition Wait_OnOpen :: "int64 \<Rightarrow> Wait \<Rightarrow> Tick \<Rightarrow> Tick" where
  "Wait_OnOpen nowUnixNano this tick =
     (let startTime = int64_div nowUnixNano 1000000 in
      tick\<lparr>tickBlackboard :=
             Blackboard_Set ''startTime'' (VInt64 startTime) (tickTreeID tick) (waitID this)
               (tickBlackboard tick)\<rparr>)"

definition Wait_OnTick :: "int64 \<Rightarrow> Wait \<Rightarrow> Tick \<Rightarrow> Panic + (Status \<times> Tick)" where
  "Wait_OnTick nowUnixNano this tick =
     (let currTime = int64_div nowUnixNano 1000000 in
      case Blackboard_GetInt64 ''startTime'' (tickTreeID tick) (waitID this) (tickBlackboard tick) of
        Inl e \<Rightarrow> Inl e
      | Inr (startTime, bb1) \<Rightarrow>
          Inr (if sint (currTime - startTime) > sint (endTime this) then SUCCESS else RUNNING,
               tick\<lparr>tickBlackboard := bb1\<rparr>))"

section \<open>The Parallel composite\<close>

text \<open>
  The model of the library function \<open>strconv.Atoi\<close> for a 64-bit \<open>int\<close>: an optional
  single sign, then one or more decimal digits and nothing else, the value within the range
  of \<open>int\<close>; \<open>None\<close> stands for a non-nil error.
\<close>

definition isDigit :: "char \<Rightarrow> bool" where
  "isDigit ch = (48 \<le> (of_char ch :: nat) \<and> (of_char ch :: nat) \<le> 57)"

definition digitsValue :: "string \<Rightarrow> int" where
  "digitsValue ds = foldl (\<lambda>n ch. n * 10 + int (of_char ch - 48)) 0 ds"

definition Atoi :: "string \<Rightarrow> int option" where
  "Atoi s =
     (let neg = (s \<noteq> [] \<and> hd s = CHR ''-'');
          ds = (if s \<noteq> [] \<and> (hd s = CHR ''-'' \<or> hd s = CHR ''+'') then tl s else s)
      in if ds = [] \<or> \<not> list_all isDigit ds then None
         else (let n = (if neg then - digitsValue ds else digitsValue ds)
               in if - (2 ^ 63) \<le> n \<and> n < 2 ^ 63 then Some n else None))"

text \<open>
  Modelled from the spec: \<open>Composite\<close> and the node base are not among the sources. A
  composite has an ordered list of children, fixed at construction, and the string
  properties of its configuration; \<open>GetProperty\<close> returns the string and whether it is
  there.
\<close>

record 'n Composite =
  children :: "'n list"
  properties :: "string \<rightharpoonup> string"

definition GetChildCount :: "'n Composite \<Rightarrow> nat" where
  "GetChildCount this = length (children this)"

definition GetChild :: "'n Composite \<Rightarrow> nat \<Rightarrow> 'n" where
  "GetChild this i = children this ! i"

definition GetProperty :: "'n Composite \<Rightarrow> string \<Rightarrow> string option" where
  "GetProperty this name = properties this name"

text \<open>
  \<open>Execute\<close> of a child is outside the sources: it is the parameter \<open>exec\<close>, which runs
  a child on the tick and returns the child's status and the tick as the child left it.
  The loop of \<open>OnTick\<close> reads the children by index from \<open>0\<close> up to \<open>count\<close>.
\<close>

function Parallel_loop ::
  "('n \<Rightarrow> 't \<Rightarrow> Status \<times> 't) \<Rightarrow> 'n Composite \<Rightarrow> nat \<Rightarrow> nat \<Rightarrow> nat \<Rightarrow> 't \<Rightarrow> nat \<times> 't" where
  "Parallel_loop exec this count i successed tick =
     (if i < count then
        (let r = exec (GetChild this i) tick in
         Parallel_loop exec this count (Suc i)
           (if fst r = SUCCESS then successed + 1 else successed) (snd r))
      else (successed, tick))"
  by pat_completeness auto
termination
  by (relation "measure (\<lambda>(exec, this, count, i, successed, tick). count - i)") auto

declare Parallel_loop.simps [simp del]

definition Parallel_OnTick ::
  "('n \<Rightarrow> 't \<Rightarrow> Status \<times> 't) \<Rightarrow> 'n Composite \<Rightarrow> 't \<Rightarrow> Status \<times> 't" where
  "Parallel_OnTick exec this tick =
     (let count = GetChildCount this;
          maxN = (case GetProperty this ''MaxSuccessCount'' of
                    Some v \<Rightarrow> (case Atoi v of Some i \<Rightarrow> i | None \<Rightarrow> int count)
                  | None \<Rightarrow> int count);
          r = Parallel_loop exec this count 0 0 tick
      in (if int (fst r) \<ge> maxN then SUCCESS else FAILURE, snd r))"

text \<open>
  What the claims about \<open>Parallel\<close> speak of: the statuses the children return when they
  are executed once each, from left to right, each on the tick its predecessor left; and
  an executor that also records which child it ran.
\<close>

fun childStatuses :: "('n \<Rightarrow> 't \<Rightarrow> Status \<times> 't) \<Rightarrow> 'n list \<Rightarrow> 't \<Rightarrow> Status list" where
  "childStatuses exec [] tick = []"
| "childStatuses exec (c # cs) tick =
     fst (exec c tick) # childStatuses exec cs (snd (exec c tick))"

fun runAll :: "('n \<Rightarrow> 't \<Rightarrow> Status \<times> 't) \<Rightarrow> 'n list \<Rightarrow> 't \<Rightarrow> 't" where
  "runAll exec [] tick = tick"
| "runAll exec (c # cs) tick = runAll exec cs (snd (exec c tick))"

definition traced :: "('n \<Rightarrow> 't \<Rightarrow> Status \<times> 't) \<Rightarrow> 'n \<Rightarrow> 't \<times> 'n list \<Rightarrow> Status \<times> 't \<times> 'n list" where
  "traced exec c st = (fst (exec c (fst st)), snd (exec c (fst st)), snd st @ [c])"

definition successCount :: "Status list \<Rightarrow> nat" where
  "successCount ss = length (filter (\<lambda>s. s = SUCCESS) ss)"

definition errorAsFailure :: "('n \<Rightarrow> 't \<Rightarrow> Status \<times> 't) \<Rightarrow> 'n \<Rightarrow> 't \<Rightarrow> Status \<times> 't" where
  "errorAsFailure exec c tick =
     (if fst (exec c tick) = ERROR then (FAILURE, snd (exec c tick)) else exec c tick)"

section \<open>How the blackboard operations act on the cells\<close>

lemma deref_getTreeMemory: "deref (getTreeMemory t bb) r = deref bb r"
  by (cases r) (auto simp: getTreeMemory_def NewTreeMemory_def NewMemory_def split: option.splits)

lemma deref_getNodeMemory: "deref (getNodeMemory t n bb) r = deref bb r"
  by (cases r) (auto simp: getNodeMemory_def NewMemory_def split: option.splits)

lemma storage_getMemory: "storage (snd (getMemory t n bb)) = storage bb"
  by (simp add: getMemory_def getTreeMemory_def getNodeMemory_def Let_def split: option.splits)

lemma fst_getMemory: "fst (getMemory t n bb) = scopeRef t n"
  by (simp add: getMemory_def scopeRef_def Let_def)

lemma deref_getMemory: "deref (snd (getMemory t n bb)) r = deref bb r"
  by (simp add: getMemory_def Let_def deref_getNodeMemory deref_getTreeMemory)

lemma deref_store_getMemory:
  "deref (store (scopeRef t n) m (snd (getMemory t n bb))) r =
     (if r = scopeRef t n then m else deref bb r)"
  by (cases r)
     (auto simp: getMemory_def scopeRef_def Let_def getTreeMemory_def getNodeMemory_def
        NewTreeMemory_def NewMemory_def split: option.splits)

lemma storage_store: "storage (store r m bb) = storage bb"
  by (cases r) (auto split: option.splits)

lemma deref_notifySet: "deref (notifySet k v t n bb) r = deref bb r"
  by (cases r) (auto simp: notifySet_def split: option.splits)

lemma deref_Set:
  "deref (Blackboard_Set k v t n bb) r =
     (if r = scopeRef t n then (deref bb r)(k \<mapsto> v) else deref bb r)"
  by (simp add: Blackboard_Set_def Memory_Set_def split_beta fst_getMemory deref_notifySet
        deref_store_getMemory deref_getMemory)

lemma deref_SetMem:
  "deref (Blackboard_SetMem k v bb) r =
     (if r = BaseRef then (deref bb r)(k \<mapsto> v) else deref bb r)"
  unfolding Blackboard_SetMem_def Memory_Set_def getMemory_def
  by (simp add: deref_notifySet del: deref.simps) (cases r; simp)

lemma deref_SetTree:
  "deref (Blackboard_SetTree k v t bb) r =
     (if r = scopeRef t [] then (deref bb r)(k \<mapsto> v) else deref bb r)"
  by (simp add: Blackboard_SetTree_def Memory_Set_def split_beta fst_getMemory deref_notifySet
        deref_store_getMemory deref_getMemory)

lemma deref_Remove:
  "deref (Blackboard_Remove k bb) r =
     (if r = BaseRef then (deref bb r)(k := None) else deref bb r)"
  unfolding Blackboard_Remove_def Memory_Remove_def getMemory_def
  by (cases r; cases "storage bb"; simp)

lemma fst_Get:
  "fst (Blackboard_Get k t n bb) = (case deref bb (scopeRef t n) k of Some v \<Rightarrow> v | None \<Rightarrow> VNil)"
  by (simp add: Blackboard_Get_def split_beta Memory_Get_def fst_getMemory deref_getMemory)

lemma deref_snd_Get: "deref (snd (Blackboard_Get k t n bb)) r = deref bb r"
  by (simp add: Blackboard_Get_def split_beta deref_getMemory)

lemma fst_GetMem:
  "fst (Blackboard_GetMem k bb) = (case deref bb BaseRef k of Some v \<Rightarrow> v | None \<Rightarrow> VNil)"
  by (simp add: Blackboard_GetMem_def split_beta Memory_Get_def getMemory_def)

lemma deref_snd_GetMem: "deref (snd (Blackboard_GetMem k bb)) r = deref bb r"
  by (simp add: Blackboard_GetMem_def split_beta getMemory_def)

text \<open>The definitions that evaluate a blackboard expression on concrete arguments.\<close>

lemmas eval_defs =
  Blackboard_Get_def Blackboard_GetMem_def Blackboard_Set_def Blackboard_SetMem_def
  Blackboard_SetTree_def Blackboard_Remove_def getMemory_def getTreeMemory_def getNodeMemory_def
  Memory_Get_def Memory_Set_def Memory_Remove_def notifySet_def Storage_Set_def Storage_Remove_def
  NewBlackboard_def Blackboard_Initialize_def replayEntry_def NewMemory_def NewTreeMemory_def
  NewTreeData_def Let_def

section \<open>Round trip\<close>

text \<open>
  C2. For every key \<open>k\<close>, value \<open>v\<close> and scope pair \<open>(t, n)\<close>, empty scopes included,
  \<open>Set(k, v, t, n)\<close> followed by \<open>Get(k, t, n)\<close> on the same blackboard returns \<open>v\<close>,
  whatever the blackboard held before and whether or not a storage is attached.
\<close>

theorem Set_Get_roundtrip:
  "fst (Blackboard_Get k t n (Blackboard_Set k v t n bb)) = v"
  by (simp add: fst_Get deref_Set)

theorem Set_Get_roundtrip_witness:
  "fst (Blackboard_Get ''k'' ''t'' ''n''
          (Blackboard_Set ''k'' (VString ''v'') ''t'' ''n'' (NewBlackboard None))) = VString ''v''
   \<and> fst (Blackboard_Get ''k'' [] ''n''
          (Blackboard_Set ''k'' VNil [] ''n''
             (Blackboard_SetMem ''k'' (VBool True) (NewBlackboard None)))) = VNil"
  using Set_Get_roundtrip [of "''k''" "''t''" "''n''" "VString ''v''" "NewBlackboard None"]
        Set_Get_roundtrip [of "''k''" "[]" "''n''" VNil
          "Blackboard_SetMem ''k'' (VBool True) (NewBlackboard None)"]
  by simp

section \<open>A node scope without a tree scope\<close>

lemma Set_empty_tree_eq:
  "Blackboard_Set k v [] n bb =
     (Blackboard_SetMem k v bb)\<lparr>storage := map_option (\<lambda>st. Storage_Set st k v [] n) (storage bb)\<rparr>"
  by (cases "storage bb")
     (simp_all add: Blackboard_Set_def Blackboard_SetMem_def getMemory_def Memory_Set_def notifySet_def)

lemma storage_SetMem:
  "storage (Blackboard_SetMem k v bb) = map_option (\<lambda>st. Storage_Set st k v [] []) (storage bb)"
  by (cases "storage bb")
     (simp_all add: Blackboard_SetMem_def getMemory_def Memory_Set_def notifySet_def)

text \<open>
  C3, as the code has it. A lookup with an empty tree scope resolves to the global memory
  whatever the node scope is, and changes nothing. \<open>Set(k, v, "", n)\<close> leaves the
  blackboard that \<open>SetMem(k, v)\<close> leaves except for what the storage is told: both write
  \<open>k \<mapsto> v\<close> into the global memory and leave the tree memories alone, so that
  \<open>Get(k, "", n')\<close> for any \<open>n'\<close> and \<open>GetMem(k)\<close> return \<open>v\<close> afterwards; an attached
  storage receives the node scope \<open>n\<close> from \<open>Set\<close> and the empty node scope from
  \<open>SetMem\<close>.
\<close>

theorem Set_node_only_is_global:
  "getMemory [] n bb = (BaseRef, bb)
   \<and> Blackboard_Set k v [] n bb
       = (Blackboard_SetMem k v bb)
           \<lparr>storage := map_option (\<lambda>st. Storage_Set st k v [] n) (storage bb)\<rparr>
   \<and> baseMemory (Blackboard_Set k v [] n bb) = (baseMemory bb)(k \<mapsto> v)
   \<and> baseMemory (Blackboard_Set k v [] n bb) = baseMemory (Blackboard_SetMem k v bb)
   \<and> treeMemory (Blackboard_Set k v [] n bb) = treeMemory (Blackboard_SetMem k v bb)
   \<and> storage (Blackboard_Set k v [] n bb)
       = map_option (\<lambda>st. Storage_Set st k v [] n) (storage bb)
   \<and> storage (Blackboard_SetMem k v bb)
       = map_option (\<lambda>st. Storage_Set st k v [] []) (storage bb)
   \<and> fst (Blackboard_Get k [] n' (Blackboard_Set k v [] n bb)) = v
   \<and> fst (Blackboard_GetMem k (Blackboard_Set k v [] n bb)) = v"
proof -
  have 1: "getMemory [] n bb = (BaseRef, bb)"
    by (simp add: getMemory_def)
  have 2: "baseMemory (Blackboard_SetMem k v bb) = (baseMemory bb)(k \<mapsto> v)"
    using deref_SetMem [of k v bb BaseRef] by simp
  have 3: "fst (Blackboard_Get k [] n' (Blackboard_Set k v [] n bb)) = v"
    using deref_Set [of k v "[]" n bb BaseRef] by (simp add: fst_Get scopeRef_def)
  have 4: "fst (Blackboard_GetMem k (Blackboard_Set k v [] n bb)) = v"
    using deref_Set [of k v "[]" n bb BaseRef] by (simp add: fst_GetMem scopeRef_def)
  show ?thesis
    using 1 2 3 4 Set_empty_tree_eq [of k v n bb] by (simp add: storage_SetMem)
qed

theorem Set_node_only_is_global_witness:
  "Blackboard_Set ''k'' (VInt64 1) [] ''n'' (NewBlackboard None)
     = Blackboard_SetMem ''k'' (VInt64 1) (NewBlackboard None)
   \<and> fst (Blackboard_Get ''k'' [] ''m''
          (Blackboard_Set ''k'' (VInt64 1) [] ''n'' (NewBlackboard None))) = VInt64 1
   \<and> fst (Blackboard_GetMem ''k''
          (Blackboard_Set ''k'' (VInt64 1) [] ''n'' (NewBlackboard None))) = VInt64 1"
  using Set_node_only_is_global [of "''n''" "NewBlackboard None" "''k''" "VInt64 1" "''m''"]
  by (simp add: eval_defs)

text \<open>
  C3 as stated fails with a storage attached: on a fresh blackboard with an empty recording
  storage, \<open>Set("k", 1, "", "n")\<close> tells the storage the node scope \<open>"n"\<close> where
  \<open>SetMem("k", 1)\<close> tells it the empty node scope, so the two calls do not leave the same
  blackboard.
\<close>

theorem Set_node_only_storage_differs:
  "storage (Blackboard_Set ''k'' (VInt64 1) [] ''n''
              (NewBlackboard (Some \<lparr>foreachEntries = [], calls = []\<rparr>)))
     = Some \<lparr>foreachEntries = [], calls = [CallSet ''k'' (VInt64 1) [] ''n'']\<rparr>
   \<and> storage (Blackboard_SetMem ''k'' (VInt64 1)
              (NewBlackboard (Some \<lparr>foreachEntries = [], calls = []\<rparr>)))
     = Some \<lparr>foreachEntries = [], calls = [CallSet ''k'' (VInt64 1) [] []]\<rparr>
   \<and> Blackboard_Set ''k'' (VInt64 1) [] ''n''
              (NewBlackboard (Some \<lparr>foreachEntries = [], calls = []\<rparr>))
     \<noteq> Blackboard_SetMem ''k'' (VInt64 1)
              (NewBlackboard (Some \<lparr>foreachEntries = [], calls = []\<rparr>))"
proof -
  let ?bb = "NewBlackboard (Some \<lparr>foreachEntries = [], calls = []\<rparr>)"
  have a: "storage (Blackboard_Set ''k'' (VInt64 1) [] ''n'' ?bb)
             = Some \<lparr>foreachEntries = [], calls = [CallSet ''k'' (VInt64 1) [] ''n'']\<rparr>"
    by (simp add: Set_empty_tree_eq NewBlackboard_def Blackboard_Initialize_def Storage_Set_def)
  have b: "storage (Blackboard_SetMem ''k'' (VInt64 1) ?bb)
             = Some \<lparr>foreachEntries = [], calls = [CallSet ''k'' (VInt64 1) [] []]\<rparr>"
    by (simp add: storage_SetMem NewBlackboard_def Blackboard_Initialize_def Storage_Set_def)
  have "storage (Blackboard_Set ''k'' (VInt64 1) [] ''n'' ?bb)
          \<noteq> storage (Blackboard_SetMem ''k'' (VInt64 1) ?bb)"
    unfolding a b by simp
  then have "Blackboard_Set ''k'' (VInt64 1) [] ''n'' ?bb \<noteq> Blackboard_SetMem ''k'' (VInt64 1) ?bb"
    by metis
  with a b show ?thesis by simp
qed


section \<open>Writes and their tier\<close>

lemma scopeRef_node_eq:
  "t \<noteq> [] \<Longrightarrow> n \<noteq> [] \<Longrightarrow> (scopeRef t' n' = scopeRef t n) = (t' = t \<and> n' = n)"
  by (auto simp: scopeRef_def)

lemma fst_Get_frame:
  "scopeRef t' n' \<noteq> scopeRef t n \<Longrightarrow>
   fst (Blackboard_Get k' t' n' (Blackboard_Set k v t n bb)) = fst (Blackboard_Get k' t' n' bb)"
  by (simp add: fst_Get deref_Set)

lemma fst_Get_SetTree_frame:
  "scopeRef t' n' \<noteq> scopeRef t [] \<Longrightarrow>
   fst (Blackboard_Get k' t' n' (Blackboard_SetTree k v t bb)) = fst (Blackboard_Get k' t' n' bb)"
  by (simp add: fst_Get deref_SetTree)

lemma fst_GetMem_eq_Get: "Blackboard_GetMem k bb = Blackboard_Get k [] [] bb"
  by (simp add: Blackboard_GetMem_def Blackboard_Get_def)

text \<open>
  C8. With non-empty \<open>t\<close> and \<open>n\<close>, \<open>Set(k, v, t, n)\<close> changes the node memory of
  \<open>(t, n)\<close> only: \<open>Get\<close> of any key at any other scope pair, \<open>Get\<close> at the tree tier of
  \<open>t\<close> and \<open>GetMem\<close> return what they returned before, and no cell other than the node
  memory of \<open>(t, n)\<close> changes. \<open>SetTree(k, v, t)\<close> with that non-empty \<open>t\<close> leaves every
  node memory and the global tier as they were.
\<close>

theorem writes_stay_in_their_tier:
  assumes "t \<noteq> []" and "n \<noteq> []"
  shows "((t', n') \<noteq> (t, n) \<longrightarrow>
            fst (Blackboard_Get k' t' n' (Blackboard_Set k v t n bb))
              = fst (Blackboard_Get k' t' n' bb))
       \<and> fst (Blackboard_Get k' t [] (Blackboard_Set k v t n bb)) = fst (Blackboard_Get k' t [] bb)
       \<and> fst (Blackboard_GetMem k' (Blackboard_Set k v t n bb)) = fst (Blackboard_GetMem k' bb)
       \<and> (r \<noteq> NodeRef t n \<longrightarrow> deref (Blackboard_Set k v t n bb) r = deref bb r)
       \<and> deref (Blackboard_SetTree k v t bb) (NodeRef t' n') = deref bb (NodeRef t' n')
       \<and> (n' \<noteq> [] \<longrightarrow>
            fst (Blackboard_Get k' t' n' (Blackboard_SetTree k v t bb))
              = fst (Blackboard_Get k' t' n' bb))
       \<and> baseMemory (Blackboard_SetTree k v t bb) = baseMemory bb
       \<and> fst (Blackboard_GetMem k' (Blackboard_SetTree k v t bb)) = fst (Blackboard_GetMem k' bb)"
proof -
  have ref: "scopeRef t n = NodeRef t n" and tref: "scopeRef t [] = TreeRef t"
    using assms by (simp_all add: scopeRef_def)
  have 1: "(t', n') \<noteq> (t, n) \<longrightarrow>
            fst (Blackboard_Get k' t' n' (Blackboard_Set k v t n bb))
              = fst (Blackboard_Get k' t' n' bb)"
    using assms by (auto intro!: fst_Get_frame simp: scopeRef_node_eq)
  have 2: "fst (Blackboard_Get k' t [] (Blackboard_Set k v t n bb)) = fst (Blackboard_Get k' t [] bb)"
    by (rule fst_Get_frame) (simp add: ref tref)
  have 3: "fst (Blackboard_GetMem k' (Blackboard_Set k v t n bb)) = fst (Blackboard_GetMem k' bb)"
    unfolding fst_GetMem_eq_Get using assms by (intro fst_Get_frame) (simp add: scopeRef_def)
  have 4: "r \<noteq> NodeRef t n \<longrightarrow> deref (Blackboard_Set k v t n bb) r = deref bb r"
    by (simp add: deref_Set ref)
  have 5: "deref (Blackboard_SetTree k v t bb) (NodeRef t' n') = deref bb (NodeRef t' n')"
    unfolding deref_SetTree tref by simp
  have 6: "n' \<noteq> [] \<longrightarrow>
            fst (Blackboard_Get k' t' n' (Blackboard_SetTree k v t bb))
              = fst (Blackboard_Get k' t' n' bb)"
    using assms by (auto intro!: fst_Get_SetTree_frame simp: scopeRef_def split: if_splits)
  have 7: "baseMemory (Blackboard_SetTree k v t bb) = baseMemory bb"
    using deref_SetTree [of k v t bb BaseRef] by (simp add: tref)
  have 8: "fst (Blackboard_GetMem k' (Blackboard_SetTree k v t bb)) = fst (Blackboard_GetMem k' bb)"
    unfolding fst_GetMem_eq_Get using assms by (intro fst_Get_SetTree_frame) (simp add: scopeRef_def)
  from 1 2 3 4 5 6 7 8 show ?thesis by blast
qed

theorem writes_stay_in_their_tier_witness:
  "''t1'' \<noteq> [] \<and> ''n1'' \<noteq> [] \<and> (''t1'', ''n2'') \<noteq> (''t1'', ''n1'')
   \<and> fst (Blackboard_Get ''k'' ''t1'' ''n2''
            (Blackboard_Set ''k'' (VInt64 7) ''t1'' ''n1''
               (Blackboard_SetTree ''k'' (VInt64 1) ''t1'' (NewBlackboard None)))) = VNil
   \<and> fst (Blackboard_Get ''k'' ''t1'' []
            (Blackboard_Set ''k'' (VInt64 7) ''t1'' ''n1''
               (Blackboard_SetTree ''k'' (VInt64 1) ''t1'' (NewBlackboard None)))) = VInt64 1"
  using writes_stay_in_their_tier [of "''t1''" "''n1''" "''t1''" "''n2''" "''k''" "''k''" "VInt64 7"
      "Blackboard_SetTree ''k'' (VInt64 1) ''t1'' (NewBlackboard None)" BaseRef]
  by (simp add: eval_defs)

section \<open>Remove\<close>

lemma storage_Remove:
  "storage (Blackboard_Remove k bb) = map_option (\<lambda>st. Storage_Remove st k [] []) (storage bb)"
  by (cases "storage bb")
     (simp_all add: Blackboard_Remove_def getMemory_def Memory_Remove_def)

lemma Initialize_without_storage:
  "storage bb = None \<Longrightarrow>
   Blackboard_Initialize bb = bb\<lparr>baseMemory := Map.empty, treeMemory := Map.empty\<rparr>"
  by (simp add: Blackboard_Initialize_def NewMemory_def)

lemma perform_keeps_scoped_keys:
  assumes "perform c bb = Inr bb'" and "r \<noteq> BaseRef" and "c \<noteq> CInitialize"
  shows "dom (deref bb r) \<subseteq> dom (deref bb' r)"
proof (cases c)
  case (CSet k v t n)
  with assms show ?thesis by (auto simp: deref_Set)
next
  case (CSetMem k v)
  with assms show ?thesis by (auto simp: deref_SetMem)
next
  case (CSetTree k v t)
  with assms show ?thesis by (auto simp: deref_SetTree)
next
  case (CRemove k)
  with assms show ?thesis by (auto simp: deref_Remove)
next
  case (CGet k t n)
  with assms show ?thesis by (auto simp: deref_snd_Get)
next
  case (CGetMem k)
  with assms show ?thesis by (auto simp: deref_snd_GetMem)
next
  case (CGetFloat64 k t n)
  with assms show ?thesis
    by (auto simp: Blackboard_GetFloat64_def split_beta deref_snd_Get split: if_splits Value.splits)
next
  case (CGetBool k t n)
  with assms show ?thesis
    by (auto simp: Blackboard_GetBool_def split_beta deref_snd_Get split: if_splits Value.splits)
next
  case (CGetInt k t n)
  with assms show ?thesis
    by (auto simp: Blackboard_GetInt_def split_beta deref_snd_Get split: if_splits Value.splits)
next
  case (CGetInt64 k t n)
  with assms show ?thesis
    by (auto simp: Blackboard_GetInt64_def split_beta deref_snd_Get split: if_splits Value.splits)
next
  case (CGetUInt64 k t n)
  with assms show ?thesis
    by (auto simp: Blackboard_GetUInt64_def split_beta deref_snd_Get split: if_splits Value.splits)
next
  case (CGetInt64Safe k t n)
  with assms show ?thesis
    by (auto simp: Blackboard_GetInt64Safe_def ReadNumberToInt64_def split_beta deref_snd_Get
          split: if_splits Value.splits)
next
  case (CGetUInt64Safe k t n)
  with assms show ?thesis
    by (auto simp: Blackboard_GetUInt64Safe_def ReadNumberToUInt64_def split_beta deref_snd_Get
          split: if_splits Value.splits)
next
  case (CGetInt32 k t n)
  with assms show ?thesis
    by (auto simp: Blackboard_GetInt32_def split_beta deref_snd_Get split: if_splits Value.splits)
next
  case CInitialize
  with assms show ?thesis by simp
qed

text \<open>
  C10, as the code has it. \<open>Remove(key)\<close> has no scope parameter and works on the global
  tier: it deletes the key from the global memory, leaves the tree memories untouched and
  tells the storage the empty scopes. For a non-empty tree scope \<open>t\<close>, a value stored with
  \<open>Set(key, v, t, n)\<close> or \<open>SetTree(key, v, t)\<close> is still what the corresponding \<open>Get\<close>
  returns after \<open>Remove(key)\<close>. Of the exported methods of \<open>Blackboard\<close>, only
  \<open>Initialize\<close> removes entries of a tree or node memory: it discards every tier and
  replays the storage, so without a storage it leaves all tiers empty. After any other call
  that returns, every key of every tree and node memory is still there.
\<close>

theorem Remove_only_global:
  assumes "t \<noteq> []"
  shows "fst (Blackboard_Get k t n (Blackboard_Remove k (Blackboard_Set k v t n bb))) = v
       \<and> fst (Blackboard_Get k t [] (Blackboard_Remove k (Blackboard_SetTree k v t bb))) = v
       \<and> baseMemory (Blackboard_Remove k bb) = (baseMemory bb)(k := None)
       \<and> treeMemory (Blackboard_Remove k bb) = treeMemory bb
       \<and> storage (Blackboard_Remove k bb)
           = map_option (\<lambda>st. Storage_Remove st k [] []) (storage bb)
       \<and> (\<forall>c bb' r. perform c bb = Inr bb' \<and> r \<noteq> BaseRef \<and> c \<noteq> CInitialize
             \<longrightarrow> dom (deref bb r) \<subseteq> dom (deref bb' r))
       \<and> perform CInitialize bb = Inr (Blackboard_Initialize bb)
       \<and> (storage bb = None \<longrightarrow>
             Blackboard_Initialize bb = bb\<lparr>baseMemory := Map.empty, treeMemory := Map.empty\<rparr>)"
proof -
  have nb: "scopeRef t n \<noteq> BaseRef" "scopeRef t [] \<noteq> BaseRef"
    using assms by (simp_all add: scopeRef_def)
  have 1: "fst (Blackboard_Get k t n (Blackboard_Remove k (Blackboard_Set k v t n bb))) = v"
    using nb by (simp add: fst_Get deref_Remove deref_Set)
  have 2: "fst (Blackboard_Get k t [] (Blackboard_Remove k (Blackboard_SetTree k v t bb))) = v"
    using nb by (simp add: fst_Get deref_Remove deref_SetTree)
  have 3: "baseMemory (Blackboard_Remove k bb) = (baseMemory bb)(k := None)"
    using deref_Remove [of k bb BaseRef] by simp
  have 4: "treeMemory (Blackboard_Remove k bb) = treeMemory bb"
    by (cases "storage bb") (simp_all add: Blackboard_Remove_def getMemory_def Memory_Remove_def)
  have 5: "\<forall>c bb' r. perform c bb = Inr bb' \<and> r \<noteq> BaseRef \<and> c \<noteq> CInitialize
             \<longrightarrow> dom (deref bb r) \<subseteq> dom (deref bb' r)"
    using perform_keeps_scoped_keys by blast
  have 6: "storage bb = None \<longrightarrow>
             Blackboard_Initialize bb = bb\<lparr>baseMemory := Map.empty, treeMemory := Map.empty\<rparr>"
    using Initialize_without_storage by blast
  have 7: "perform CInitialize bb = Inr (Blackboard_Initialize bb)"
    by simp
  from 1 2 3 4 storage_Remove [of k bb] 5 7 6 show ?thesis
    by (intro conjI)
qed

theorem Remove_only_global_witness:
  "''t1'' \<noteq> []
   \<and> fst (Blackboard_Get ''k'' ''t1'' ''n1''
        (Blackboard_Remove ''k''
           (Blackboard_Set ''k'' (VInt64 5) ''t1'' ''n1''
              (Blackboard_SetMem ''k'' (VInt64 9) (NewBlackboard None))))) = VInt64 5
   \<and> baseMemory (Blackboard_Remove ''k'' (Blackboard_SetMem ''k'' (VInt64 9) (NewBlackboard None))) ''k''
       = None
   \<and> perform (CRemove ''k'') (Blackboard_Set ''k'' (VInt64 5) ''t1'' ''n1'' (NewBlackboard None))
       = Inr (Blackboard_Remove ''k'' (Blackboard_Set ''k'' (VInt64 5) ''t1'' ''n1'' (NewBlackboard None)))
   \<and> NodeRef ''t1'' ''n1'' \<noteq> BaseRef
   \<and> CRemove ''k'' \<noteq> CInitialize
   \<and> ''k'' \<in> dom (deref (Blackboard_Remove ''k''
                          (Blackboard_Set ''k'' (VInt64 5) ''t1'' ''n1'' (NewBlackboard None)))
                    (NodeRef ''t1'' ''n1''))
   \<and> storage (NewBlackboard None) = None
   \<and> Blackboard_Initialize (NewBlackboard None) = NewBlackboard None"
  using Remove_only_global [of "''t1''" "''k''" "''n1''" "VInt64 5"
          "Blackboard_SetMem ''k'' (VInt64 9) (NewBlackboard None)"]
        Remove_only_global [of "''t1''" "''k''" "''n1''" "VInt64 5"
          "Blackboard_Set ''k'' (VInt64 5) ''t1'' ''n1'' (NewBlackboard None)"]
        Remove_only_global [of "''t1''" "''k''" "''n1''" "VInt64 5" "NewBlackboard None"]
  by (simp add: eval_defs)

text \<open>
  C10 as stated fails in its last part: \<open>Initialize\<close> is an exported method of
  \<open>Blackboard\<close>, and calling it on a blackboard without a storage that holds \<open>2\<close> under
  \<open>"k"\<close> in the node memory of \<open>("t", "n")\<close> removes that entry: \<open>Get("k", "t", "n")\<close>
  returned \<open>2\<close> before the call and returns nil after it.
\<close>

theorem Initialize_removes_scoped_entries:
  "perform CInitialize (Blackboard_Set ''k'' (VInt64 2) ''t'' ''n'' (NewBlackboard None))
     = Inr (Blackboard_Initialize (Blackboard_Set ''k'' (VInt64 2) ''t'' ''n'' (NewBlackboard None)))
   \<and> fst (Blackboard_Get ''k'' ''t'' ''n''
          (Blackboard_Set ''k'' (VInt64 2) ''t'' ''n'' (NewBlackboard None))) = VInt64 2
   \<and> deref (Blackboard_Set ''k'' (VInt64 2) ''t'' ''n'' (NewBlackboard None))
          (NodeRef ''t'' ''n'') ''k'' = Some (VInt64 2)
   \<and> deref (Blackboard_Initialize
                 (Blackboard_Set ''k'' (VInt64 2) ''t'' ''n'' (NewBlackboard None)))
          (NodeRef ''t'' ''n'') ''k'' = None
   \<and> fst (Blackboard_Get ''k'' ''t'' ''n''
          (Blackboard_Initialize
             (Blackboard_Set ''k'' (VInt64 2) ''t'' ''n'' (NewBlackboard None)))) = VNil"
  by (simp add: eval_defs)

section \<open>Replay of the storage at construction\<close>

lemma deref_replayEntry:
  "deref (replayEntry bb (k, v, t, n)) r =
     (if r = scopeRef t n then (deref bb r)(k \<mapsto> v) else deref bb r)"
  by (simp add: replayEntry_def deref_Set deref_SetTree deref_SetMem scopeRef_def del: deref.simps)

lemma deref_replay_distinct:
  assumes "distinct (map (\<lambda>(k, v, t, n). (k, scopeRef t n)) es)"
      and "(k, v, t, n) \<in> set es"
  shows "deref (foldl replayEntry bb es) (scopeRef t n) k = Some v"
  using assms
proof (induction es rule: rev_induct)
  case Nil
  then show ?case by simp
next
  case (snoc e es)
  obtain k' v' t' n' where e: "e = (k', v', t', n')"
    by (cases e) auto
  show ?case
  proof (cases "(k, v, t, n) = e")
    case True
    then show ?thesis by (simp add: e deref_replayEntry del: deref.simps)
  next
    case False
    with snoc.prems have mem: "(k, v, t, n) \<in> set es" by simp
    from snoc.prems(1) have d: "distinct (map (\<lambda>(k, v, t, n). (k, scopeRef t n)) es)"
      and notin: "(k', scopeRef t' n') \<notin> (\<lambda>(k, v, t, n). (k, scopeRef t n)) ` set es"
      by (simp_all add: e)
    from notin mem have ne: "(k', scopeRef t' n') \<noteq> (k, scopeRef t n)"
      by force
    have "deref (foldl replayEntry bb es) (scopeRef t n) k = Some v"
      using snoc.IH [OF d mem] .
    with ne show ?thesis
      by (auto simp add: e deref_replayEntry simp del: deref.simps)
  qed
qed

text \<open>
  C7, as the code has it. \<open>NewBlackboard(storage)\<close> replays the entries that \<open>Foreach\<close>
  yields, in the order it yields them, each into the memory its scopes designate: the node
  memory for a tree and a node scope, the tree memory for a tree scope only, the global
  memory otherwise (a node scope without a tree scope included). When no two of the entries
  have the same key and designate the same memory, \<open>Get(key, treeScope, nodeScope)\<close>
  returns the persisted value of every entry afterwards.
\<close>

theorem NewBlackboard_replays:
  assumes "distinct (map (\<lambda>(k, v, t, n). (k, scopeRef t n)) (foreachEntries st))"
      and "(k, v, t, n) \<in> set (foreachEntries st)"
  shows "fst (Blackboard_Get k t n (NewBlackboard (Some st))) = v
       \<and> deref (NewBlackboard (Some st)) (scopeRef t n) k = Some v"
proof -
  have "NewBlackboard (Some st)
          = foldl replayEntry \<lparr>storage = Some st, baseMemory = NewMemory, treeMemory = Map.empty\<rparr>
              (foreachEntries st)"
    by (simp add: NewBlackboard_def Blackboard_Initialize_def)
  then have "deref (NewBlackboard (Some st)) (scopeRef t n) k = Some v"
    using deref_replay_distinct [OF assms] by simp
  then show ?thesis by (simp add: fst_Get)
qed

theorem NewBlackboard_replays_witness:
  "distinct (map (\<lambda>(k, v, t, n). (k, scopeRef t n))
      [(''k'', VInt64 1, ''t'', ''n''), (''k'', VInt64 2, ''t'', []), (''k'', VInt64 3, [], ''n'')])
   \<and> (''k'', VInt64 1, ''t'', ''n'')
       \<in> set [(''k'', VInt64 1, ''t'', ''n''), (''k'', VInt64 2, ''t'', []), (''k'', VInt64 3, [], ''n'')]
   \<and> fst (Blackboard_Get ''k'' ''t'' ''n''
         (NewBlackboard (Some \<lparr>foreachEntries =
              [(''k'', VInt64 1, ''t'', ''n''), (''k'', VInt64 2, ''t'', []), (''k'', VInt64 3, [], ''n'')],
              calls = []\<rparr>))) = VInt64 1"
  using NewBlackboard_replays [of "\<lparr>foreachEntries =
              [(''k'', VInt64 1, ''t'', ''n''), (''k'', VInt64 2, ''t'', []), (''k'', VInt64 3, [], ''n'')],
              calls = []\<rparr>" "''k''" "VInt64 1" "''t''" "''n''"]
  by (simp add: scopeRef_def)

text \<open>
  C7 as stated fails when two entries share a key and designate the same memory. A storage
  that keeps the entries \<open>("k", 1, "", "n")\<close> and \<open>("k", 2, "", "")\<close>, which differ in
  their scopes, yields both; both land in the global memory under \<open>"k"\<close>, the later one
  wins, and \<open>Get("k", "", "n")\<close> returns \<open>2\<close>, not the persisted \<open>1\<close> of the first entry.
\<close>

theorem NewBlackboard_replay_collision:
  "fst (Blackboard_Get ''k'' [] ''n''
         (NewBlackboard (Some \<lparr>foreachEntries = [(''k'', VInt64 1, [], ''n''), (''k'', VInt64 2, [], [])],
                                calls = []\<rparr>))) = VInt64 2
   \<and> fst (Blackboard_Get ''k'' [] ''n''
         (NewBlackboard (Some \<lparr>foreachEntries = [(''k'', VInt64 1, [], ''n''), (''k'', VInt64 2, [], [])],
                                calls = []\<rparr>))) \<noteq> VInt64 1"
  by (simp add: eval_defs)

section \<open>Typed accessors\<close>

lemma GetFloat64_cases:
  "Blackboard_GetFloat64 k t n bb =
     (case fst (Blackboard_Get k t n bb) of
        VNil \<Rightarrow> Inr (0, snd (Blackboard_Get k t n bb))
      | VFloat64 x \<Rightarrow> Inr (x, snd (Blackboard_Get k t n bb))
      | _ \<Rightarrow> Inl TypeAssertionPanic)"
  by (simp add: Blackboard_GetFloat64_def split_beta split: Value.splits)

lemma GetBool_cases:
  "Blackboard_GetBool k t n bb =
     (case fst (Blackboard_Get k t n bb) of
        VNil \<Rightarrow> Inr (False, snd (Blackboard_Get k t n bb))
      | VBool x \<Rightarrow> Inr (x, snd (Blackboard_Get k t n bb))
      | _ \<Rightarrow> Inl TypeAssertionPanic)"
  by (simp add: Blackboard_GetBool_def split_beta split: Value.splits)

lemma GetInt_cases:
  "Blackboard_GetInt k t n bb =
     (case fst (Blackboard_Get k t n bb) of
        VNil \<Rightarrow> Inr (0, snd (Blackboard_Get k t n bb))
      | VInt x \<Rightarrow> Inr (x, snd (Blackboard_Get k t n bb))
      | _ \<Rightarrow> Inl TypeAssertionPanic)"
  by (simp add: Blackboard_GetInt_def split_beta split: Value.splits)

lemma GetInt64_cases:
  "Blackboard_GetInt64 k t n bb =
     (case fst (Blackboard_Get k t n bb) of
        VNil \<Rightarrow> Inr (0, snd (Blackboard_Get k t n bb))
      | VInt64 x \<Rightarrow> Inr (x, snd (Blackboard_Get k t n bb))
      | _ \<Rightarrow> Inl TypeAssertionPanic)"
  by (simp add: Blackboard_GetInt64_def split_beta split: Value.splits)

lemma GetUInt64_cases:
  "Blackboard_GetUInt64 k t n bb =
     (case fst (Blackboard_Get k t n bb) of
        VNil \<Rightarrow> Inr (0, snd (Blackboard_Get k t n bb))
      | VUInt64 x \<Rightarrow> Inr (x, snd (Blackboard_Get k t n bb))
      | _ \<Rightarrow> Inl TypeAssertionPanic)"
  by (simp add: Blackboard_GetUInt64_def split_beta split: Value.splits)

lemma GetInt32_cases:
  "Blackboard_GetInt32 k t n bb =
     (case fst (Blackboard_Get k t n bb) of
        VNil \<Rightarrow> Inr (0, snd (Blackboard_Get k t n bb))
      | VInt32 x \<Rightarrow> Inr (x, snd (Blackboard_Get k t n bb))
      | _ \<Rightarrow> Inl TypeAssertionPanic)"
  by (simp add: Blackboard_GetInt32_def split_beta split: Value.splits)

lemma GetInt64Safe_cases:
  "Blackboard_GetInt64Safe k t n bb =
     (case fst (Blackboard_Get k t n bb) of
        VNil \<Rightarrow> Inr (0, snd (Blackboard_Get k t n bb))
      | VUInt64 x \<Rightarrow> Inr (x, snd (Blackboard_Get k t n bb))
      | _ \<Rightarrow> Inl ExplicitPanic)"
  by (simp add: Blackboard_GetInt64Safe_def ReadNumberToInt64_def split_beta split: Value.splits)

lemma GetUInt64Safe_cases:
  "Blackboard_GetUInt64Safe k t n bb =
     (case fst (Blackboard_Get k t n bb) of
        VNil \<Rightarrow> Inr (0, snd (Blackboard_Get k t n bb))
      | VInt64 x \<Rightarrow> Inr (x, snd (Blackboard_Get k t n bb))
      | _ \<Rightarrow> Inl ExplicitPanic)"
  by (simp add: Blackboard_GetUInt64Safe_def ReadNumberToUInt64_def split_beta split: Value.splits)

lemma GetFloat64_spec:
  "((\<exists>e. Blackboard_GetFloat64 k t n bb = Inl e) \<longleftrightarrow>
      (\<exists>w. deref bb (scopeRef t n) k = Some w \<and> w \<noteq> VNil \<and> (\<forall>x. w \<noteq> VFloat64 x)))
   \<and> (deref bb (scopeRef t n) k = None \<or> deref bb (scopeRef t n) k = Some VNil \<longrightarrow>
        Blackboard_GetFloat64 k t n bb = Inr (0, snd (Blackboard_Get k t n bb)))
   \<and> (\<forall>x. deref bb (scopeRef t n) k = Some (VFloat64 x) \<longrightarrow>
        Blackboard_GetFloat64 k t n bb = Inr (x, snd (Blackboard_Get k t n bb)))"
  by (auto simp: GetFloat64_cases fst_Get simp del: deref.simps split: option.splits Value.splits)

lemma GetBool_spec:
  "((\<exists>e. Blackboard_GetBool k t n bb = Inl e) \<longleftrightarrow>
      (\<exists>w. deref bb (scopeRef t n) k = Some w \<and> w \<noteq> VNil \<and> (\<forall>x. w \<noteq> VBool x)))
   \<and> (deref bb (scopeRef t n) k = None \<or> deref bb (scopeRef t n) k = Some VNil \<longrightarrow>
        Blackboard_GetBool k t n bb = Inr (False, snd (Blackboard_Get k t n bb)))
   \<and> (\<forall>x. deref bb (scopeRef t n) k = Some (VBool x) \<longrightarrow>
        Blackboard_GetBool k t n bb = Inr (x, snd (Blackboard_Get k t n bb)))"
  by (auto simp: GetBool_cases fst_Get simp del: deref.simps split: option.splits Value.splits)

lemma GetInt_spec:
  "((\<exists>e. Blackboard_GetInt k t n bb = Inl e) \<longleftrightarrow>
      (\<exists>w. deref bb (scopeRef t n) k = Some w \<and> w \<noteq> VNil \<and> (\<forall>x. w \<noteq> VInt x)))
   \<and> (deref bb (scopeRef t n) k = None \<or> deref bb (scopeRef t n) k = Some VNil \<longrightarrow>
        Blackboard_GetInt k t n bb = Inr (0, snd (Blackboard_Get k t n bb)))
   \<and> (\<forall>x. deref bb (scopeRef t n) k = Some (VInt x) \<longrightarrow>
        Blackboard_GetInt k t n bb = Inr (x, snd (Blackboard_Get k t n bb)))"
  by (auto simp: GetInt_cases fst_Get simp del: deref.simps split: option.splits Value.splits)

lemma GetInt64_spec:
  "((\<exists>e. Blackboard_GetInt64 k t n bb = Inl e) \<longleftrightarrow>
      (\<exists>w. deref bb (scopeRef t n) k = Some w \<and> w \<noteq> VNil \<and> (\<forall>x. w \<noteq> VInt64 x)))
   \<and> (deref bb (scopeRef t n) k = None \<or> deref bb (scopeRef t n) k = Some VNil \<longrightarrow>
        Blackboard_GetInt64 k t n bb = Inr (0, snd (Blackboard_Get k t n bb)))
   \<and> (\<forall>x. deref bb (scopeRef t n) k = Some (VInt64 x) \<longrightarrow>
        Blackboard_GetInt64 k t n bb = Inr (x, snd (Blackboard_Get k t n bb)))"
  by (auto simp: GetInt64_cases fst_Get simp del: deref.simps split: option.splits Value.splits)

lemma GetUInt64_spec:
  "((\<exists>e. Blackboard_GetUInt64 k t n bb = Inl e) \<longleftrightarrow>
      (\<exists>w. deref bb (scopeRef t n) k = Some w \<and> w \<noteq> VNil \<and> (\<forall>x. w \<noteq> VUInt64 x)))
   \<and> (deref bb (scopeRef t n) k = None \<or> deref bb (scopeRef t n) k = Some VNil \<longrightarrow>
        Blackboard_GetUInt64 k t n bb = Inr (0, snd (Blackboard_Get k t n bb)))
   \<and> (\<forall>x. deref bb (scopeRef t n) k = Some (VUInt64 x) \<longrightarrow>
        Blackboard_GetUInt64 k t n bb = Inr (x, snd (Blackboard_Get k t n bb)))"
  by (auto simp: GetUInt64_cases fst_Get simp del: deref.simps split: option.splits Value.splits)

lemma GetInt32_spec:
  "((\<exists>e. Blackboard_GetInt32 k t n bb = Inl e) \<longleftrightarrow>
      (\<exists>w. deref bb (scopeRef t n) k = Some w \<and> w \<noteq> VNil \<and> (\<forall>x. w \<noteq> VInt32 x)))
   \<and> (deref bb (scopeRef t n) k = None \<or> deref bb (scopeRef t n) k = Some VNil \<longrightarrow>
        Blackboard_GetInt32 k t n bb = Inr (0, snd (Blackboard_Get k t n bb)))
   \<and> (\<forall>x. deref bb (scopeRef t n) k = Some (VInt32 x) \<longrightarrow>
        Blackboard_GetInt32 k t n bb = Inr (x, snd (Blackboard_Get k t n bb)))"
  by (auto simp: GetInt32_cases fst_Get simp del: deref.simps split: option.splits Value.splits)

lemma GetInt64Safe_spec:
  "((\<exists>e. Blackboard_GetInt64Safe k t n bb = Inl e) \<longleftrightarrow>
      (\<exists>w. deref bb (scopeRef t n) k = Some w \<and> w \<noteq> VNil \<and> (\<forall>x. w \<noteq> VUInt64 x)))
   \<and> (deref bb (scopeRef t n) k = None \<or> deref bb (scopeRef t n) k = Some VNil \<longrightarrow>
        Blackboard_GetInt64Safe k t n bb = Inr (0, snd (Blackboard_Get k t n bb)))
   \<and> (\<forall>x. deref bb (scopeRef t n) k = Some (VUInt64 x) \<longrightarrow>
        Blackboard_GetInt64Safe k t n bb = Inr (x, snd (Blackboard_Get k t n bb)))"
  by (auto simp: GetInt64Safe_cases fst_Get simp del: deref.simps split: option.splits Value.splits)

lemma GetUInt64Safe_spec:
  "((\<exists>e. Blackboard_GetUInt64Safe k t n bb = Inl e) \<longleftrightarrow>
      (\<exists>w. deref bb (scopeRef t n) k = Some w \<and> w \<noteq> VNil \<and> (\<forall>x. w \<noteq> VInt64 x)))
   \<and> (deref bb (scopeRef t n) k = None \<or> deref bb (scopeRef t n) k = Some VNil \<longrightarrow>
        Blackboard_GetUInt64Safe k t n bb = Inr (0, snd (Blackboard_Get k t n bb)))
   \<and> (\<forall>x. deref bb (scopeRef t n) k = Some (VInt64 x) \<longrightarrow>
        Blackboard_GetUInt64Safe k t n bb = Inr (x, snd (Blackboard_Get k t n bb)))"
  by (auto simp: GetUInt64Safe_cases fst_Get simp del: deref.simps split: option.splits Value.splits)


lemma GetInt64Safe_on_int64:
  "deref bb (scopeRef t n) k = Some (VInt64 x) \<Longrightarrow>
   Blackboard_GetInt64Safe k t n bb = Inl ExplicitPanic"
  by (simp add: GetInt64Safe_cases fst_Get del: deref.simps)

lemma GetUInt64Safe_on_uint64:
  "deref bb (scopeRef t n) k = Some (VUInt64 x) \<Longrightarrow>
   Blackboard_GetUInt64Safe k t n bb = Inl ExplicitPanic"
  by (simp add: GetUInt64Safe_cases fst_Get del: deref.simps)

text \<open>
  C5, as the code has it. For every scope pair and key, each of the typed accessors
  \<open>GetInt64\<close>, \<open>GetFloat64\<close>, \<open>GetBool\<close>, \<open>GetInt\<close>, \<open>GetUInt64\<close> and \<open>GetInt32\<close>
  panics if and only if the key is present with a stored value that is not nil and not of
  the accessor's type; when the key is absent or the nil interface is stored under it
  (\<open>Get\<close> returns nil in both cases) the accessor returns the zero value of its type, and
  when the stored value has the accessor's type it returns that value.
\<close>

theorem typed_accessors:
  "((\<exists>e. Blackboard_GetInt64 k t n bb = Inl e) \<longleftrightarrow>
      (\<exists>w. deref bb (scopeRef t n) k = Some w \<and> w \<noteq> VNil \<and> (\<forall>x. w \<noteq> VInt64 x)))
   \<and> (deref bb (scopeRef t n) k = None \<or> deref bb (scopeRef t n) k = Some VNil \<longrightarrow>
        Blackboard_GetInt64 k t n bb = Inr (0, snd (Blackboard_Get k t n bb)))
   \<and> (\<forall>x. deref bb (scopeRef t n) k = Some (VInt64 x) \<longrightarrow>
        Blackboard_GetInt64 k t n bb = Inr (x, snd (Blackboard_Get k t n bb)))
   \<and> ((\<exists>e. Blackboard_GetFloat64 k t n bb = Inl e) \<longleftrightarrow>
      (\<exists>w. deref bb (scopeRef t n) k = Some w \<and> w \<noteq> VNil \<and> (\<forall>x. w \<noteq> VFloat64 x)))
   \<and> (deref bb (scopeRef t n) k = None \<or> deref bb (scopeRef t n) k = Some VNil \<longrightarrow>
        Blackboard_GetFloat64 k t n bb = Inr (0, snd (Blackboard_Get k t n bb)))
   \<and> (\<forall>x. deref bb (scopeRef t n) k = Some (VFloat64 x) \<longrightarrow>
        Blackboard_GetFloat64 k t n bb = Inr (x, snd (Blackboard_Get k t n bb)))
   \<and> ((\<exists>e. Blackboard_GetBool k t n bb = Inl e) \<longleftrightarrow>
      (\<exists>w. deref bb (scopeRef t n) k = Some w \<and> w \<noteq> VNil \<and> (\<forall>x. w \<noteq> VBool x)))
   \<and> (deref bb (scopeRef t n) k = None \<or> deref bb (scopeRef t n) k = Some VNil \<longrightarrow>
        Blackboard_GetBool k t n bb = Inr (False, snd (Blackboard_Get k t n bb)))
   \<and> (\<forall>x. deref bb (scopeRef t n) k = Some (VBool x) \<longrightarrow>
        Blackboard_GetBool k t n bb = Inr (x, snd (Blackboard_Get k t n bb)))
   \<and> ((\<exists>e. Blackboard_GetInt k t n bb = Inl e) \<longleftrightarrow>
      (\<exists>w. deref bb (scopeRef t n) k = Some w \<and> w \<noteq> VNil \<and> (\<forall>x. w \<noteq> VInt x)))
   \<and> (deref bb (scopeRef t n) k = None \<or> deref bb (scopeRef t n) k = Some VNil \<longrightarrow>
        Blackboard_GetInt k t n bb = Inr (0, snd (Blackboard_Get k t n bb)))
   \<and> (\<forall>x. deref bb (scopeRef t n) k = Some (VInt x) \<longrightarrow>
        Blackboard_GetInt k t n bb = Inr (x, snd (Blackboard_Get k t n bb)))
   \<and> ((\<exists>e. Blackboard_GetUInt64 k t n bb = Inl e) \<longleftrightarrow>
      (\<exists>w. deref bb (scopeRef t n) k = Some w \<and> w \<noteq> VNil \<and> (\<forall>x. w \<noteq> VUInt64 x)))
   \<and> (deref bb (scopeRef t n) k = None \<or> deref bb (scopeRef t n) k = Some VNil \<longrightarrow>
        Blackboard_GetUInt64 k t n bb = Inr (0, snd (Blackboard_Get k t n bb)))
   \<and> (\<forall>x. deref bb (scopeRef t n) k = Some (VUInt64 x) \<longrightarrow>
        Blackboard_GetUInt64 k t n bb = Inr (x, snd (Blackboard_Get k t n bb)))
   \<and> ((\<exists>e. Blackboard_GetInt32 k t n bb = Inl e) \<longleftrightarrow>
      (\<exists>w. deref bb (scopeRef t n) k = Some w \<and> w \<noteq> VNil \<and> (\<forall>x. w \<noteq> VInt32 x)))
   \<and> (deref bb (scopeRef t n) k = None \<or> deref bb (scopeRef t n) k = Some VNil \<longrightarrow>
        Blackboard_GetInt32 k t n bb = Inr (0, snd (Blackboard_Get k t n bb)))
   \<and> (\<forall>x. deref bb (scopeRef t n) k = Some (VInt32 x) \<longrightarrow>
        Blackboard_GetInt32 k t n bb = Inr (x, snd (Blackboard_Get k t n bb)))"
  using GetInt64_spec [of k t n bb] GetFloat64_spec [of k t n bb] GetBool_spec [of k t n bb] GetInt_spec [of k t n bb] GetUInt64_spec [of k t n bb] GetInt32_spec [of k t n bb]
  by (elim conjE, intro conjI) assumption+

theorem typed_accessors_witness:
  "deref (Blackboard_Set ''k'' (VInt64 5) ''t'' ''n'' (NewBlackboard None)) (scopeRef ''t'' ''n'') ''k''
     = Some (VInt64 5)
   \<and> Blackboard_GetInt64 ''k'' ''t'' ''n'' (Blackboard_Set ''k'' (VInt64 5) ''t'' ''n'' (NewBlackboard None))
     = Inr (5, Blackboard_Set ''k'' (VInt64 5) ''t'' ''n'' (NewBlackboard None))
   \<and> Blackboard_GetBool ''k'' ''t'' ''n'' (Blackboard_Set ''k'' (VInt64 5) ''t'' ''n'' (NewBlackboard None))
     = Inl TypeAssertionPanic
   \<and> deref (NewBlackboard None) (scopeRef ''t'' ''n'') ''k'' = None
   \<and> fst (projr (Blackboard_GetInt32 ''k'' ''t'' ''n'' (NewBlackboard None))) = 0"
  using typed_accessors [of "''k''" "''t''" "''n''"
          "Blackboard_Set ''k'' (VInt64 5) ''t'' ''n'' (NewBlackboard None)"]
        typed_accessors [of "''k''" "''t''" "''n''" "NewBlackboard None"]
  by (simp add: eval_defs scopeRef_def Blackboard_GetInt64_def Blackboard_GetBool_def
        Blackboard_GetInt32_def)

text \<open>
  C5 as stated fails for a key that is present with the nil interface stored: after
  \<open>Set("k", nil, "", "")\<close> the key is in the global memory with a value that is not an
  \<open>int64\<close>, and \<open>GetInt64("k", "", "")\<close> returns \<open>0\<close> instead of panicking.
\<close>

theorem typed_accessor_nil_stored:
  "baseMemory (Blackboard_Set ''k'' VNil [] [] (NewBlackboard None)) ''k'' = Some VNil
   \<and> Blackboard_GetInt64 ''k'' [] [] (Blackboard_Set ''k'' VNil [] [] (NewBlackboard None))
     = Inr (0, Blackboard_Set ''k'' VNil [] [] (NewBlackboard None))"
  by (simp add: eval_defs Blackboard_GetInt64_def)

text \<open>
  C9. \<open>GetInt64Safe\<close> returns the stored value, converted to \<open>int64\<close>, exactly when a
  \<open>uint64\<close> is stored, and panics for every other non-nil stored value, an \<open>int64\<close>
  included; \<open>GetUInt64Safe\<close> accepts a stored \<open>int64\<close> only and panics for every other
  non-nil stored value, a \<open>uint64\<close> included. When the key is absent both return \<open>0\<close>.
\<close>

theorem safe_accessors:
  "((\<exists>e. Blackboard_GetInt64Safe k t n bb = Inl e) \<longleftrightarrow>
      (\<exists>w. deref bb (scopeRef t n) k = Some w \<and> w \<noteq> VNil \<and> (\<forall>x. w \<noteq> VUInt64 x)))
   \<and> (deref bb (scopeRef t n) k = None \<or> deref bb (scopeRef t n) k = Some VNil \<longrightarrow>
        Blackboard_GetInt64Safe k t n bb = Inr (0, snd (Blackboard_Get k t n bb)))
   \<and> (\<forall>x. deref bb (scopeRef t n) k = Some (VUInt64 x) \<longrightarrow>
        Blackboard_GetInt64Safe k t n bb = Inr (x, snd (Blackboard_Get k t n bb)))
   \<and> (\<forall>x. deref bb (scopeRef t n) k = Some (VInt64 x) \<longrightarrow>
        Blackboard_GetInt64Safe k t n bb = Inl ExplicitPanic)
   \<and> ((\<exists>e. Blackboard_GetUInt64Safe k t n bb = Inl e) \<longleftrightarrow>
      (\<exists>w. deref bb (scopeRef t n) k = Some w \<and> w \<noteq> VNil \<and> (\<forall>x. w \<noteq> VInt64 x)))
   \<and> (deref bb (scopeRef t n) k = None \<or> deref bb (scopeRef t n) k = Some VNil \<longrightarrow>
        Blackboard_GetUInt64Safe k t n bb = Inr (0, snd (Blackboard_Get k t n bb)))
   \<and> (\<forall>x. deref bb (scopeRef t n) k = Some (VInt64 x) \<longrightarrow>
        Blackboard_GetUInt64Safe k t n bb = Inr (x, snd (Blackboard_Get k t n bb)))
   \<and> (\<forall>x. deref bb (scopeRef t n) k = Some (VUInt64 x) \<longrightarrow>
        Blackboard_GetUInt64Safe k t n bb = Inl ExplicitPanic)"
  using GetInt64Safe_spec [of k t n bb] GetUInt64Safe_spec [of k t n bb]
    GetInt64Safe_on_int64 [of bb t n k] GetUInt64Safe_on_uint64 [of bb t n k]
  by blast

theorem safe_accessors_witness:
  "deref (Blackboard_Set ''k'' (VUInt64 5) ''t'' ''n'' (NewBlackboard None)) (scopeRef ''t'' ''n'') ''k''
     = Some (VUInt64 5)
   \<and> Blackboard_GetInt64Safe ''k'' ''t'' ''n'' (Blackboard_Set ''k'' (VUInt64 5) ''t'' ''n'' (NewBlackboard None))
     = Inr (5, Blackboard_Set ''k'' (VUInt64 5) ''t'' ''n'' (NewBlackboard None))
   \<and> Blackboard_GetUInt64Safe ''k'' ''t'' ''n'' (Blackboard_Set ''k'' (VUInt64 5) ''t'' ''n'' (NewBlackboard None))
     = Inl ExplicitPanic
   \<and> deref (Blackboard_Set ''k'' (VInt64 5) ''t'' ''n'' (NewBlackboard None)) (scopeRef ''t'' ''n'') ''k''
     = Some (VInt64 5)
   \<and> Blackboard_GetInt64Safe ''k'' ''t'' ''n'' (Blackboard_Set ''k'' (VInt64 5) ''t'' ''n'' (NewBlackboard None))
     = Inl ExplicitPanic
   \<and> deref (NewBlackboard None) (scopeRef ''t'' ''n'') ''k'' = None
   \<and> fst (projr (Blackboard_GetInt64Safe ''k'' ''t'' ''n'' (NewBlackboard None))) = 0
   \<and> fst (projr (Blackboard_GetUInt64Safe ''k'' ''t'' ''n'' (NewBlackboard None))) = 0"
  using safe_accessors [of "''k''" "''t''" "''n''"
          "Blackboard_Set ''k'' (VUInt64 5) ''t'' ''n'' (NewBlackboard None)"]
        safe_accessors [of "''k''" "''t''" "''n''"
          "Blackboard_Set ''k'' (VInt64 5) ''t'' ''n'' (NewBlackboard None)"]
        safe_accessors [of "''k''" "''t''" "''n''" "NewBlackboard None"]
  by (simp add: eval_defs scopeRef_def Blackboard_GetInt64Safe_def Blackboard_GetUInt64Safe_def
        ReadNumberToInt64_def ReadNumberToUInt64_def)

section \<open>Parallel\<close>

lemma Atoi_examples:
  "Atoi [] = None" "Atoi ''+'' = None" "Atoi ''-7'' = Some (-7)" "Atoi ''+12'' = Some 12"
  "Atoi ''1.5'' = None" "Atoi '' 3'' = None" "Atoi ''9223372036854775807'' = Some 9223372036854775807"
  "Atoi ''9223372036854775808'' = None" "Atoi ''-9223372036854775808'' = Some (-9223372036854775808)"
  by (simp_all add: Atoi_def isDigit_def digitsValue_def)

lemma Parallel_loop_eq:
  assumes "count = length (children this)" and "i \<le> count"
  shows "Parallel_loop exec this count i successed tick =
           (successed + successCount (childStatuses exec (drop i (children this)) tick),
            runAll exec (drop i (children this)) tick)"
  using assms
proof (induction exec this count i successed tick rule: Parallel_loop.induct)
  case (1 exec this count i successed tick)
  show ?case
  proof (cases "i < count")
    case True
    then have d: "drop i (children this) = children this ! i # drop (Suc i) (children this)"
      using "1.prems" by (simp add: Cons_nth_drop_Suc)
    have "Parallel_loop exec this count (Suc i)
            (if fst (exec (GetChild this i) tick) = SUCCESS then successed + 1 else successed)
            (snd (exec (GetChild this i) tick))
          = ((if fst (exec (GetChild this i) tick) = SUCCESS then successed + 1 else successed)
               + successCount (childStatuses exec (drop (Suc i) (children this))
                                 (snd (exec (GetChild this i) tick))),
             runAll exec (drop (Suc i) (children this)) (snd (exec (GetChild this i) tick)))"
      using "1.IH" [OF True refl] "1.prems" True by simp
    then show ?thesis
      using True
      by (subst Parallel_loop.simps) (simp add: d GetChild_def successCount_def Let_def)
  next
    case False
    then have "drop i (children this) = []"
      using "1.prems" by simp
    then show ?thesis
      using False by (subst Parallel_loop.simps) (simp add: successCount_def)
  qed
qed

lemma Parallel_OnTick_eq:
  "Parallel_OnTick exec this tick =
     (if int (successCount (childStatuses exec (children this) tick))
           \<ge> (case GetProperty this ''MaxSuccessCount'' of
                 Some v \<Rightarrow> (case Atoi v of Some i \<Rightarrow> i | None \<Rightarrow> int (GetChildCount this))
               | None \<Rightarrow> int (GetChildCount this))
      then SUCCESS else FAILURE,
      runAll exec (children this) tick)"
proof -
  have "Parallel_loop exec this (GetChildCount this) 0 0 tick =
          (successCount (childStatuses exec (children this) tick), runAll exec (children this) tick)"
    using Parallel_loop_eq [of "GetChildCount this" this 0 exec 0 tick]
    by (simp add: GetChildCount_def)
  then show ?thesis
    by (simp add: Parallel_OnTick_def Let_def)
qed

lemma childStatuses_length: "length (childStatuses exec cs tick) = length cs"
  by (induction cs arbitrary: tick) simp_all

lemma successCount_le: "successCount (childStatuses exec cs tick) \<le> length cs"
  using length_filter_le [of "\<lambda>s. s = SUCCESS" "childStatuses exec cs tick"]
  by (simp add: successCount_def childStatuses_length)

lemma successCount_all:
  "(successCount ss = length ss) = (\<forall>s \<in> set ss. s = SUCCESS)"
proof (induction ss)
  case Nil
  show ?case by (simp add: successCount_def)
next
  case (Cons a ss)
  show ?case
  proof (cases "a = SUCCESS")
    case True
    with Cons show ?thesis by (simp add: successCount_def)
  next
    case False
    have le: "length (filter (\<lambda>s. s = SUCCESS) ss) \<le> length ss"
      by (rule length_filter_le)
    have "successCount (a # ss) = length (filter (\<lambda>s. s = SUCCESS) ss)"
      using False by (simp add: successCount_def)
    with le have "successCount (a # ss) \<noteq> length (a # ss)"
      by (simp del: length_filter_le)
    with False show ?thesis by simp
  qed
qed

lemma runAll_traced:
  "runAll (traced exec) cs (tick, log) = (runAll exec cs tick, log @ cs)"
  by (induction cs arbitrary: tick log) (simp_all add: traced_def)

lemma childStatuses_traced:
  "childStatuses (traced exec) cs (tick, log) = childStatuses exec cs tick"
  by (induction cs arbitrary: tick log) (simp_all add: traced_def)

lemma runAll_errorAsFailure: "runAll (errorAsFailure exec) cs tick = runAll exec cs tick"
  by (induction cs arbitrary: tick) (simp_all add: errorAsFailure_def)

lemma childStatuses_errorAsFailure:
  "childStatuses (errorAsFailure exec) cs tick =
     map (\<lambda>s. if s = ERROR then FAILURE else s) (childStatuses exec cs tick)"
  by (induction cs arbitrary: tick) (simp_all add: errorAsFailure_def)

lemma successCount_errorAsFailure:
  "successCount (map (\<lambda>s. if s = ERROR then FAILURE else s) ss) = successCount ss"
  by (induction ss) (simp_all add: successCount_def)

text \<open>
  C1. For a \<open>Parallel\<close> node with \<open>N\<close> children and any statuses they return,
  \<open>OnTick\<close> executes every child exactly once, from left to right and without
  short-circuit: the tick it returns is the one all children have worked on in turn, and an
  executor that records the children it runs records exactly the list of children. It counts
  the children that returned \<open>SUCCESS\<close> and returns \<open>SUCCESS\<close> if the count reaches the
  configured threshold (\<open>N\<close> when none is configured) and \<open>FAILURE\<close> otherwise, so it
  never returns \<open>RUNNING\<close> or \<open>ERROR\<close>; and a child that returns \<open>ERROR\<close> counts as one
  that returns \<open>FAILURE\<close>: replacing every \<open>ERROR\<close> by \<open>FAILURE\<close> changes nothing.
\<close>

theorem Parallel_OnTick_counts:
  "fst (Parallel_OnTick exec this tick) =
     (if int (successCount (childStatuses exec (children this) tick))
           \<ge> (case GetProperty this ''MaxSuccessCount'' of
                 Some v \<Rightarrow> (case Atoi v of Some i \<Rightarrow> i | None \<Rightarrow> int (GetChildCount this))
               | None \<Rightarrow> int (GetChildCount this))
      then SUCCESS else FAILURE)
   \<and> snd (Parallel_OnTick exec this tick) = runAll exec (children this) tick
   \<and> snd (snd (Parallel_OnTick (traced exec) this (tick, []))) = children this
   \<and> fst (Parallel_OnTick exec this tick) \<noteq> RUNNING
   \<and> fst (Parallel_OnTick exec this tick) \<noteq> ERROR
   \<and> Parallel_OnTick (errorAsFailure exec) this tick = Parallel_OnTick exec this tick"
  by (simp add: Parallel_OnTick_eq runAll_traced runAll_errorAsFailure
        childStatuses_errorAsFailure successCount_errorAsFailure)

theorem Parallel_OnTick_counts_witness:
  "fst (Parallel_OnTick (\<lambda>c tick. (c, tick))
          \<lparr>children = [SUCCESS, FAILURE, SUCCESS], properties = Map.empty\<rparr> ()) = FAILURE
   \<and> fst (Parallel_OnTick (\<lambda>c tick. (c, tick))
          \<lparr>children = [SUCCESS, FAILURE, SUCCESS],
             properties = [''MaxSuccessCount'' \<mapsto> ''2'']\<rparr> ()) = SUCCESS
   \<and> fst (Parallel_OnTick (\<lambda>c tick. (c, tick))
          \<lparr>children = [SUCCESS, ERROR, RUNNING, SUCCESS],
             properties = [''MaxSuccessCount'' \<mapsto> ''3'']\<rparr> ()) = FAILURE
   \<and> snd (snd (Parallel_OnTick (traced (\<lambda>c tick. (c, tick)))
          \<lparr>children = [SUCCESS, ERROR, RUNNING, SUCCESS],
             properties = [''MaxSuccessCount'' \<mapsto> ''3'']\<rparr> ((), [])))
       = [SUCCESS, ERROR, RUNNING, SUCCESS]"
  using Parallel_OnTick_counts [of "\<lambda>c tick. (c, tick)"
          "\<lparr>children = [SUCCESS, FAILURE, SUCCESS], properties = Map.empty\<rparr>" "()"]
        Parallel_OnTick_counts [of "\<lambda>c tick. (c, tick)"
          "\<lparr>children = [SUCCESS, FAILURE, SUCCESS],
             properties = [''MaxSuccessCount'' \<mapsto> ''2'']\<rparr>" "()"]
        Parallel_OnTick_counts [of "\<lambda>c tick. (c, tick)"
          "\<lparr>children = [SUCCESS, ERROR, RUNNING, SUCCESS],
             properties = [''MaxSuccessCount'' \<mapsto> ''3'']\<rparr>" "()"]
  by (simp add: successCount_def GetProperty_def GetChildCount_def Atoi_def isDigit_def
        digitsValue_def)

text \<open>
  C6. If the property \<open>MaxSuccessCount\<close> is absent, or \<open>strconv.Atoi\<close> rejects its value,
  \<open>OnTick\<close> takes the child count as the threshold, which is to require that all children
  succeed, and reports no error: it returns \<open>SUCCESS\<close> or \<open>FAILURE\<close> as before. A value
  that parses as an integer is the threshold.
\<close>

theorem Parallel_threshold_fallback:
  "(GetProperty this ''MaxSuccessCount'' = None \<longrightarrow>
       fst (Parallel_OnTick exec this tick) =
         (if successCount (childStatuses exec (children this) tick) = GetChildCount this
          then SUCCESS else FAILURE))
   \<and> (\<forall>v. GetProperty this ''MaxSuccessCount'' = Some v \<and> Atoi v = None \<longrightarrow>
       fst (Parallel_OnTick exec this tick) =
         (if successCount (childStatuses exec (children this) tick) = GetChildCount this
          then SUCCESS else FAILURE))
   \<and> (\<forall>v i. GetProperty this ''MaxSuccessCount'' = Some v \<and> Atoi v = Some i \<longrightarrow>
       fst (Parallel_OnTick exec this tick) =
         (if int (successCount (childStatuses exec (children this) tick)) \<ge> i
          then SUCCESS else FAILURE))
   \<and> ((successCount (childStatuses exec (children this) tick) = GetChildCount this)
        = (\<forall>s \<in> set (childStatuses exec (children this) tick). s = SUCCESS))
   \<and> (fst (Parallel_OnTick exec this tick) = SUCCESS
        \<or> fst (Parallel_OnTick exec this tick) = FAILURE)"
proof -
  let ?ss = "childStatuses exec (children this) tick"
  have le: "successCount ?ss \<le> length (children this)"
    by (rule successCount_le)
  then have ge: "(int (length (children this)) \<le> int (successCount ?ss))
                  = (successCount ?ss = length (children this))"
    by auto
  have all: "(successCount ?ss = GetChildCount this) = (\<forall>s \<in> set ?ss. s = SUCCESS)"
    using successCount_all [of ?ss] by (simp add: childStatuses_length GetChildCount_def)
  have 1: "GetProperty this ''MaxSuccessCount'' = None \<longrightarrow>
       fst (Parallel_OnTick exec this tick) =
         (if successCount ?ss = GetChildCount this then SUCCESS else FAILURE)"
    using ge by (simp add: Parallel_OnTick_eq GetChildCount_def)
  have 2: "\<forall>v. GetProperty this ''MaxSuccessCount'' = Some v \<and> Atoi v = None \<longrightarrow>
       fst (Parallel_OnTick exec this tick) =
         (if successCount ?ss = GetChildCount this then SUCCESS else FAILURE)"
    using ge by (simp add: Parallel_OnTick_eq GetChildCount_def)
  have 3: "\<forall>v i. GetProperty this ''MaxSuccessCount'' = Some v \<and> Atoi v = Some i \<longrightarrow>
       fst (Parallel_OnTick exec this tick) =
         (if int (successCount ?ss) \<ge> i then SUCCESS else FAILURE)"
    by (simp add: Parallel_OnTick_eq)
  have 4: "fst (Parallel_OnTick exec this tick) = SUCCESS
        \<or> fst (Parallel_OnTick exec this tick) = FAILURE"
    by (simp add: Parallel_OnTick_eq)
  from 1 2 3 all 4 show ?thesis
    by (intro conjI)
qed

theorem Parallel_threshold_fallback_witness:
  "GetProperty \<lparr>children = [SUCCESS, FAILURE, SUCCESS], properties = Map.empty\<rparr>
      ''MaxSuccessCount'' = None
   \<and> fst (Parallel_OnTick (\<lambda>c tick. (c, tick))
          \<lparr>children = [SUCCESS, FAILURE, SUCCESS], properties = Map.empty\<rparr> ()) = FAILURE
   \<and> Atoi ''two'' = None
   \<and> fst (Parallel_OnTick (\<lambda>c tick. (c, tick))
          \<lparr>children = [SUCCESS, FAILURE, SUCCESS],
             properties = [''MaxSuccessCount'' \<mapsto> ''two'']\<rparr> ()) = FAILURE
   \<and> fst (Parallel_OnTick (\<lambda>c tick. (c, tick))
          \<lparr>children = [SUCCESS, SUCCESS],
             properties = [''MaxSuccessCount'' \<mapsto> ''two'']\<rparr> ()) = SUCCESS
   \<and> Atoi ''2'' = Some 2
   \<and> fst (Parallel_OnTick (\<lambda>c tick. (c, tick))
          \<lparr>children = [SUCCESS, FAILURE, SUCCESS],
             properties = [''MaxSuccessCount'' \<mapsto> ''2'']\<rparr> ()) = SUCCESS"
  using Parallel_threshold_fallback [of
          "\<lparr>children = [SUCCESS, FAILURE, SUCCESS], properties = Map.empty\<rparr>"
          "\<lambda>c tick. (c, tick)" "()"]
        Parallel_threshold_fallback [of
          "\<lparr>children = [SUCCESS, FAILURE, SUCCESS],
             properties = [''MaxSuccessCount'' \<mapsto> ''two'']\<rparr>"
          "\<lambda>c tick. (c, tick)" "()"]
        Parallel_threshold_fallback [of
          "\<lparr>children = [SUCCESS, SUCCESS], properties = [''MaxSuccessCount'' \<mapsto> ''two'']\<rparr>"
          "\<lambda>c tick. (c, tick)" "()"]
        Parallel_threshold_fallback [of
          "\<lparr>children = [SUCCESS, FAILURE, SUCCESS],
             properties = [''MaxSuccessCount'' \<mapsto> ''2'']\<rparr>"
          "\<lambda>c tick. (c, tick)" "()"]
  by (simp add: successCount_def GetProperty_def GetChildCount_def Atoi_def isDigit_def
        digitsValue_def)

section \<open>Wait\<close>

lemma sint_million: "sint (1000000 :: int64) = 1000000"
  by simp

lemma sint_int64_div_million:
  assumes "0 \<le> sint a"
  shows "sint (int64_div a 1000000) = sint a div 1000000"
proof -
  have q: "sint a sdiv 1000000 = sint a div 1000000"
    using assms by (simp add: signed_divide_int_def sgn_if)
  have lo: "0 \<le> sint a div 1000000"
    using assms by simp
  have "sint a div 1000000 \<le> sint a"
    using assms by arith
  moreover have "sint a < 2 ^ 63"
    using sint_lt [of a] by simp
  ultimately have hi: "sint a div 1000000 < 2 ^ 63"
    by linarith
  have "sint (word_of_int (sint a div 1000000) :: int64) = sint a div 1000000"
    using lo hi by (simp add: signed_of_int signed_take_bit_int_eq_self)
  then show ?thesis
    by (simp add: int64_div_def q)
qed

lemma sint_diff_nonneg:
  fixes c s :: int64
  assumes "0 \<le> sint s" and "sint s \<le> sint c"
  shows "sint (c - s) = sint c - sint s"
proof -
  have "sint c < 2 ^ 63"
    using sint_lt [of c] by simp
  with assms have "- (2 ^ 63) \<le> sint c - sint s" and "sint c - sint s < 2 ^ 63"
    by linarith+
  then show ?thesis
    by (simp add: sint_word_ariths signed_take_bit_int_eq_self)
qed

lemma Wait_open_then_tick:
  "Wait_OnTick now1 this (Wait_OnOpen now0 this tick) =
     Inr (if sint (int64_div now1 1000000 - int64_div now0 1000000) > sint (endTime this)
          then SUCCESS else RUNNING,
          tick\<lparr>tickBlackboard :=
                 snd (Blackboard_Get ''startTime'' (tickTreeID tick) (waitID this)
                        (Blackboard_Set ''startTime'' (VInt64 (int64_div now0 1000000))
                           (tickTreeID tick) (waitID this) (tickBlackboard tick)))\<rparr>)"
  by (simp add: Wait_OnTick_def Wait_OnOpen_def Let_def GetInt64_cases fst_Get deref_Set)

text \<open>
  C4, as the code has it. For a \<open>Wait\<close> action initialized with \<open>milliseconds=100\<close> and a
  clock that does not run backwards (readings in nanoseconds since the epoch), an \<open>OnTick\<close>
  after \<open>OnOpen\<close> never panics and returns \<open>SUCCESS\<close> exactly when the clock's reading in
  whole milliseconds exceeds the recorded start by more than \<open>100\<close>, and \<open>RUNNING\<close>
  otherwise. So an \<open>OnTick\<close> issued immediately, or while no more than \<open>100\<close>
  milliseconds have elapsed, returns \<open>RUNNING\<close>, and one issued once at least \<open>101\<close>
  milliseconds have elapsed returns \<open>SUCCESS\<close>.
\<close>

theorem Wait_elapsed:
  assumes "cfgProperties setting ''milliseconds'' = Some (PNumber 100)"
      and "0 \<le> sint now0" and "sint now0 \<le> sint now1"
  shows "map_sum id fst (Wait_OnTick now1 (Wait_Initialize this setting)
                           (Wait_OnOpen now0 (Wait_Initialize this setting) tick))
           = Inr (if 100 < sint now1 div 1000000 - sint now0 div 1000000 then SUCCESS else RUNNING)
       \<and> (now1 = now0 \<longrightarrow>
            map_sum id fst (Wait_OnTick now1 (Wait_Initialize this setting)
                              (Wait_OnOpen now0 (Wait_Initialize this setting) tick))
              = Inr RUNNING)
       \<and> (sint now1 - sint now0 \<le> 100000000 \<longrightarrow>
            map_sum id fst (Wait_OnTick now1 (Wait_Initialize this setting)
                              (Wait_OnOpen now0 (Wait_Initialize this setting) tick))
              = Inr RUNNING)
       \<and> (101000000 \<le> sint now1 - sint now0 \<longrightarrow>
            map_sum id fst (Wait_OnTick now1 (Wait_Initialize this setting)
                              (Wait_OnOpen now0 (Wait_Initialize this setting) tick))
              = Inr SUCCESS)"
proof -
  let ?w = "Wait_Initialize this setting"
  let ?r = "map_sum id fst (Wait_OnTick now1 ?w (Wait_OnOpen now0 ?w tick))"
  have e: "sint (endTime ?w) = 100"
    using assms(1) by (simp add: Wait_Initialize_def GetPropertyAsInt64_def)
  have n1: "0 \<le> sint now1"
    using assms(2,3) by linarith
  have m0: "sint (int64_div now0 1000000) = sint now0 div 1000000"
    using assms(2) by (rule sint_int64_div_million)
  have m1: "sint (int64_div now1 1000000) = sint now1 div 1000000"
    using n1 by (rule sint_int64_div_million)
  have mono: "sint now0 div 1000000 \<le> sint now1 div 1000000"
    using assms(3) by (rule zdiv_mono1) simp
  have nn: "0 \<le> sint now0 div 1000000"
    using assms(2) by simp
  have d: "sint (int64_div now1 1000000 - int64_div now0 1000000)
             = sint now1 div 1000000 - sint now0 div 1000000"
    using sint_diff_nonneg [of "int64_div now0 1000000" "int64_div now1 1000000"] nn mono
    by (simp add: m0 m1)
  have 1: "?r = Inr (if 100 < sint now1 div 1000000 - sint now0 div 1000000 then SUCCESS else RUNNING)"
    by (simp add: Wait_open_then_tick d e)
  have 3: "sint now1 - sint now0 \<le> 100000000 \<longrightarrow>
             \<not> 100 < sint now1 div 1000000 - sint now0 div 1000000"
    by arith
  have 4: "101000000 \<le> sint now1 - sint now0 \<longrightarrow>
             100 < sint now1 div 1000000 - sint now0 div 1000000"
    by arith
  have 2: "now1 = now0 \<longrightarrow> ?r = Inr RUNNING"
    using 1 by auto
  have r3: "sint now1 - sint now0 \<le> 100000000 \<longrightarrow> ?r = Inr RUNNING"
    using 1 3 by simp
  have r4: "101000000 \<le> sint now1 - sint now0 \<longrightarrow> ?r = Inr SUCCESS"
    using 1 4 by simp
  from 1 2 r3 r4 show ?thesis
    by (intro conjI)
qed

theorem Wait_elapsed_witness:
  "cfgProperties \<lparr>cfgId = ''wait'', cfgProperties = [''milliseconds'' \<mapsto> PNumber 100]\<rparr>
      ''milliseconds'' = Some (PNumber 100)
   \<and> 0 \<le> sint (5000000 :: int64) \<and> sint (5000000 :: int64) \<le> sint (106000000 :: int64)
   \<and> map_sum id fst
        (Wait_OnTick 106000000
           (Wait_Initialize \<lparr>waitID = [], endTime = 0\<rparr>
              \<lparr>cfgId = ''wait'', cfgProperties = [''milliseconds'' \<mapsto> PNumber 100]\<rparr>)
           (Wait_OnOpen 5000000
              (Wait_Initialize \<lparr>waitID = [], endTime = 0\<rparr>
                 \<lparr>cfgId = ''wait'', cfgProperties = [''milliseconds'' \<mapsto> PNumber 100]\<rparr>)
              \<lparr>tickBlackboard = NewBlackboard None, tickTreeID = ''tree''\<rparr>))
       = Inr SUCCESS
   \<and> map_sum id fst
        (Wait_OnTick 5000000
           (Wait_Initialize \<lparr>waitID = [], endTime = 0\<rparr>
              \<lparr>cfgId = ''wait'', cfgProperties = [''milliseconds'' \<mapsto> PNumber 100]\<rparr>)
           (Wait_OnOpen 5000000
              (Wait_Initialize \<lparr>waitID = [], endTime = 0\<rparr>
                 \<lparr>cfgId = ''wait'', cfgProperties = [''milliseconds'' \<mapsto> PNumber 100]\<rparr>)
              \<lparr>tickBlackboard = NewBlackboard None, tickTreeID = ''tree''\<rparr>))
       = Inr RUNNING"
  using Wait_elapsed [of "\<lparr>cfgId = ''wait'', cfgProperties = [''milliseconds'' \<mapsto> PNumber 100]\<rparr>"
          5000000 106000000 "\<lparr>waitID = [], endTime = 0\<rparr>"
          "\<lparr>tickBlackboard = NewBlackboard None, tickTreeID = ''tree''\<rparr>"]
        Wait_elapsed [of "\<lparr>cfgId = ''wait'', cfgProperties = [''milliseconds'' \<mapsto> PNumber 100]\<rparr>"
          5000000 5000000 "\<lparr>waitID = [], endTime = 0\<rparr>"
          "\<lparr>tickBlackboard = NewBlackboard None, tickTreeID = ''tree''\<rparr>"]
  by simp

text \<open>
  C4 as stated fails at the boundary: with \<open>OnOpen\<close> at clock reading \<open>0\<close> and \<open>OnTick\<close>
  at \<open>100000000\<close> nanoseconds, exactly \<open>100\<close> milliseconds have elapsed and \<open>OnTick\<close>
  still returns \<open>RUNNING\<close>, because the comparison with \<open>endTime\<close> is strict.
\<close>

theorem Wait_at_exactly_100ms:
  "map_sum id fst
     (Wait_OnTick 100000000
        (Wait_Initialize \<lparr>waitID = [], endTime = 0\<rparr>
           \<lparr>cfgId = ''wait'', cfgProperties = [''milliseconds'' \<mapsto> PNumber 100]\<rparr>)
        (Wait_OnOpen 0
           (Wait_Initialize \<lparr>waitID = [], endTime = 0\<rparr>
              \<lparr>cfgId = ''wait'', cfgProperties = [''milliseconds'' \<mapsto> PNumber 100]\<rparr>)
           \<lparr>tickBlackboard = NewBlackboard None, tickTreeID = ''tree''\<rparr>))
     = Inr RUNNING"
  by (simp add: Wait_open_then_tick Wait_Initialize_def GetPropertyAsInt64_def int64_div_def
        signed_divide_int_def)

end
